theory Spec2Isabelle
  imports Main "HOL-Library.Word" "HOL-Library.Signed_Division"
begin

unbundle bit_operations_syntax

section \<open>Attribute-word constants of \<open>src/arch/aarch64/mm.c\<close>\<close>

type_synonym uint64_t = "64 word"
type_synonym uint8_t = "8 word"
type_synonym uint16_t = "16 word"
type_synonym c_int = "32 word" \<comment> \<open>C \<open>int\<close>; read as signed through \<open>sint\<close>, \<open>\<le>s\<close>, \<open><s\<close>\<close>

definition NON_SHAREABLE :: uint64_t where "NON_SHAREABLE = 0"
definition OUTER_SHAREABLE :: uint64_t where "OUTER_SHAREABLE = 2"
definition INNER_SHAREABLE :: uint64_t where "INNER_SHAREABLE = 3"

definition STAGE1_XN :: uint64_t where "STAGE1_XN = push_bit 54 1"
definition STAGE1_PXN :: uint64_t where "STAGE1_PXN = push_bit 53 1"
definition STAGE1_CONTIGUOUS :: uint64_t where "STAGE1_CONTIGUOUS = push_bit 52 1"
definition STAGE1_DBM :: uint64_t where "STAGE1_DBM = push_bit 51 1"
definition STAGE1_NG :: uint64_t where "STAGE1_NG = push_bit 11 1"
definition STAGE1_AF :: uint64_t where "STAGE1_AF = push_bit 10 1"
definition STAGE1_SH :: "uint64_t \<Rightarrow> uint64_t" where "STAGE1_SH x = push_bit 8 x"
definition STAGE1_AP2 :: uint64_t where "STAGE1_AP2 = push_bit 7 1"
definition STAGE1_AP1 :: uint64_t where "STAGE1_AP1 = push_bit 6 1"
definition STAGE1_AP :: "uint64_t \<Rightarrow> uint64_t" where "STAGE1_AP x = push_bit 6 x"
definition STAGE1_NS :: uint64_t where "STAGE1_NS = push_bit 5 1"
definition STAGE1_ATTRINDX :: "uint64_t \<Rightarrow> uint64_t" where "STAGE1_ATTRINDX x = push_bit 2 x"

definition STAGE1_READONLY :: uint64_t where "STAGE1_READONLY = 2"
definition STAGE1_READWRITE :: uint64_t where "STAGE1_READWRITE = 0"

definition STAGE1_DEVICEINDX :: uint64_t where "STAGE1_DEVICEINDX = 0"
definition STAGE1_NORMALINDX :: uint64_t where "STAGE1_NORMALINDX = 1"

definition STAGE2_XN :: "uint64_t \<Rightarrow> uint64_t" where "STAGE2_XN x = push_bit 53 x"
definition STAGE2_AF :: uint64_t where "STAGE2_AF = push_bit 10 1"
definition STAGE2_SH :: "uint64_t \<Rightarrow> uint64_t" where "STAGE2_SH x = push_bit 8 x"
definition STAGE2_S2AP :: "uint64_t \<Rightarrow> uint64_t" where "STAGE2_S2AP x = push_bit 6 x"

definition STAGE2_EXECUTE_ALL :: uint64_t where "STAGE2_EXECUTE_ALL = 0"
definition STAGE2_EXECUTE_NONE :: uint64_t where "STAGE2_EXECUTE_NONE = 2"

text \<open>Table attributes only apply to stage 1 translations.\<close>

definition TABLE_NSTABLE :: uint64_t where "TABLE_NSTABLE = push_bit 63 1"
definition TABLE_APTABLE1 :: uint64_t where "TABLE_APTABLE1 = push_bit 62 1"
definition TABLE_APTABLE0 :: uint64_t where "TABLE_APTABLE0 = push_bit 61 1"
definition TABLE_XNTABLE :: uint64_t where "TABLE_XNTABLE = push_bit 60 1"
definition TABLE_PXNTABLE :: uint64_t where "TABLE_PXNTABLE = push_bit 59 1"

definition STAGE2_WRITEBACK :: uint64_t where "STAGE2_WRITEBACK = 3"

definition STAGE2_MEMATTR_NORMAL :: "uint64_t \<Rightarrow> uint64_t \<Rightarrow> uint64_t" where
  "STAGE2_MEMATTR_NORMAL outer inner = push_bit 2 (push_bit 2 outer OR inner)"

definition STAGE2_MEMATTR_DEVICE_GRE :: uint64_t where
  "STAGE2_MEMATTR_DEVICE_GRE = push_bit 2 3"

definition STAGE2_ACCESS_READ :: uint64_t where "STAGE2_ACCESS_READ = 1"
definition STAGE2_ACCESS_WRITE :: uint64_t where "STAGE2_ACCESS_WRITE = 2"

section \<open>Attribute combiner\<close>

text \<open>
  \<open>arch_mm_combine_table_entry_attrs\<close>: five independent tests on the table
  descriptor's attribute bits, each updating the block attributes in the order of
  the source.
\<close>

definition arch_mm_combine_table_entry_attrs :: "uint64_t \<Rightarrow> uint64_t \<Rightarrow> uint64_t" where
  "arch_mm_combine_table_entry_attrs table_attrs block_attrs =
     (let b1 = (if table_attrs AND TABLE_NSTABLE \<noteq> 0 then block_attrs OR STAGE1_NS else block_attrs);
          b2 = (if table_attrs AND TABLE_APTABLE1 \<noteq> 0 then b1 OR STAGE1_AP2 else b1);
          b3 = (if table_attrs AND TABLE_APTABLE0 \<noteq> 0 then b2 AND NOT STAGE1_AP1 else b2);
          b4 = (if table_attrs AND TABLE_XNTABLE \<noteq> 0 then b3 OR STAGE1_XN else b3);
          b5 = (if table_attrs AND TABLE_PXNTABLE \<noteq> 0 then b4 OR STAGE1_PXN else b4)
      in b5)"

text \<open>
  The caller applies the combiner root-to-leaf, feeding each result back in as the
  block attributes for the next table descriptor on the path.
\<close>

definition combine_path :: "uint64_t list \<Rightarrow> uint64_t \<Rightarrow> uint64_t" where
  "combine_path path block_attrs =
     foldl (\<lambda>b t. arch_mm_combine_table_entry_attrs t b) block_attrs path"


section \<open>Mode bit masks\<close>

text \<open>
  The masks \<open>MM_MODE_R\<close>, \<open>MM_MODE_W\<close>, \<open>MM_MODE_X\<close>, \<open>MM_MODE_D\<close> and
  \<open>MM_MODE_STAGE1\<close> are macros of \<open>hf/mm.h\<close>, which \<open>mm.c\<close> only includes.
  Their values are therefore a parameter of every function that tests a mode.
\<close>

record mm_mode_flags =
  MM_MODE_R :: c_int
  MM_MODE_W :: c_int
  MM_MODE_X :: c_int
  MM_MODE_D :: c_int
  MM_MODE_STAGE1 :: c_int

section \<open>Attribute translator\<close>

definition arch_mm_mode_to_attrs :: "mm_mode_flags \<Rightarrow> c_int \<Rightarrow> uint64_t" where
  "arch_mm_mode_to_attrs fl mode =
     (let attrs = (0 :: uint64_t) in
      if mode AND MM_MODE_STAGE1 fl \<noteq> 0 then
        let attrs = attrs OR (STAGE1_AF OR STAGE1_SH OUTER_SHAREABLE);
            attrs = (if \<not> (mode AND MM_MODE_X fl \<noteq> 0) then attrs OR STAGE1_XN else attrs);
            attrs = (if mode AND MM_MODE_W fl \<noteq> 0
                     then attrs OR STAGE1_AP STAGE1_READWRITE
                     else attrs OR STAGE1_AP STAGE1_READONLY);
            attrs = (if mode AND MM_MODE_D fl \<noteq> 0
                     then attrs OR STAGE1_ATTRINDX STAGE1_DEVICEINDX
                     else attrs OR STAGE1_ATTRINDX STAGE1_NORMALINDX)
        in attrs
      else
        let access = (0 :: uint64_t);
            attrs = attrs OR (STAGE2_AF OR STAGE2_SH NON_SHAREABLE);
            access = (if mode AND MM_MODE_R fl \<noteq> 0 then access OR STAGE2_ACCESS_READ else access);
            access = (if mode AND MM_MODE_W fl \<noteq> 0 then access OR STAGE2_ACCESS_WRITE else access);
            attrs = attrs OR STAGE2_S2AP access;
            attrs = (if mode AND MM_MODE_X fl \<noteq> 0
                     then attrs OR STAGE2_XN STAGE2_EXECUTE_ALL
                     else attrs OR STAGE2_XN STAGE2_EXECUTE_NONE);
            attrs = (if mode AND MM_MODE_D fl \<noteq> 0
                     then attrs OR STAGE2_MEMATTR_DEVICE_GRE
                     else attrs OR STAGE2_MEMATTR_NORMAL STAGE2_WRITEBACK STAGE2_WRITEBACK)
        in attrs)"

text \<open>Field readers for an attribute word: \<open>width\<close> bits starting at bit \<open>lo\<close>.\<close>

definition field :: "nat \<Rightarrow> nat \<Rightarrow> uint64_t \<Rightarrow> uint64_t" where
  "field lo width w = take_bit width (drop_bit lo w)"

section \<open>Machine state: the two file-scope globals, system registers, and a trace\<close>

datatype sysreg =
  id_aa64mmfr0_el1 | CTR_EL0 | vtcr_el2 | mair_el2 | ttbr0_el2 | tcr_el2 | sctlr_el2

datatype event =
    Dlog_granule_unsupported
  | Dlog_unsupported_parange uint64_t
  | Dlog_supported_pa_bits c_int
  | Dlog_stage2_geometry c_int c_int
  | Write_msr sysreg uint64_t
  | Dsb_sy
  | Isb
  | Dc_cvac uint64_t

record mm_state =
  mm_s2_max_level :: uint8_t
  mm_s2_root_table_count :: uint8_t
  msr :: "sysreg \<Rightarrow> uint64_t"
  trace :: "event list"

text \<open>C zero-initialises the two statics; the registers hold whatever the hardware reports.\<close>

definition boot_state :: "(sysreg \<Rightarrow> uint64_t) \<Rightarrow> mm_state" where
  "boot_state regs =
     \<lparr>mm_s2_max_level = 0, mm_s2_root_table_count = 0, msr = regs, trace = []\<rparr>"

definition emit :: "event \<Rightarrow> mm_state \<Rightarrow> mm_state" where
  "emit e s = s\<lparr>trace := trace s @ [e]\<rparr>"

definition read_msr :: "sysreg \<Rightarrow> mm_state \<Rightarrow> uint64_t" where
  "read_msr r s = msr s r"

definition write_msr :: "sysreg \<Rightarrow> uint64_t \<Rightarrow> mm_state \<Rightarrow> mm_state" where
  "write_msr r v s = emit (Write_msr r v) (s\<lparr>msr := (msr s)(r := v)\<rparr>)"

section \<open>Level and root-count oracle\<close>

definition arch_mm_max_level :: "mm_mode_flags \<Rightarrow> c_int \<Rightarrow> mm_state \<Rightarrow> uint8_t" where
  "arch_mm_max_level fl mode s =
     (if mode AND MM_MODE_STAGE1 fl \<noteq> 0 then 2 else mm_s2_max_level s)"

definition arch_mm_root_table_count :: "mm_mode_flags \<Rightarrow> c_int \<Rightarrow> mm_state \<Rightarrow> uint8_t" where
  "arch_mm_root_table_count fl mode s =
     (if mode AND MM_MODE_STAGE1 fl \<noteq> 0 then 1 else mm_s2_root_table_count s)"

section \<open>Capability probe and MMU bring-up\<close>

text \<open>
  Modelled from the spec: \<open>PAGE_BITS\<close> and \<open>PAGE_LEVEL_BITS\<close> are macros of an
  architecture header that is not among the sources; the spec computes
  \<open>(width - 12) mod 9\<close> with them.
\<close>

definition PAGE_BITS :: c_int where "PAGE_BITS = 12"
definition PAGE_LEVEL_BITS :: c_int where "PAGE_LEVEL_BITS = 9"

text \<open>C's \<open>%\<close> on \<open>int\<close> truncates towards zero.\<close>

definition c_mod :: "c_int \<Rightarrow> c_int \<Rightarrow> c_int" where
  "c_mod a b = word_of_int (sint a smod sint b)"

text \<open>\<open>static const int pa_bits_table[16] = {32, 36, 40, 42, 44, 48}\<close>: ten zeros follow.\<close>

definition pa_bits_table :: "c_int list" where
  "pa_bits_table = [32, 36, 40, 42, 44, 48, 0, 0, 0, 0, 0, 0, 0, 0, 0, 0]"

definition vtcr_value :: "uint64_t \<Rightarrow> c_int \<Rightarrow> c_int \<Rightarrow> uint64_t" where
  "vtcr_value features sl0 pa_bits =
     ucast (push_bit 31 (1 :: 32 word)) OR
     push_bit 16 (features AND 0xf) OR
     scast (push_bit 14 (0 :: c_int)) OR
     scast (push_bit 12 (3 :: c_int)) OR
     scast (push_bit 10 (1 :: c_int)) OR
     scast (push_bit 8 (1 :: c_int)) OR
     scast (push_bit 6 sl0) OR
     scast (push_bit 0 (64 - pa_bits))"

definition mair_value :: uint64_t where
  "mair_value =
     scast (push_bit (unat (8 * STAGE1_DEVICEINDX)) (0 :: c_int) OR
            push_bit (unat (8 * STAGE1_NORMALINDX)) (0xff :: c_int))"

definition tcr_value :: "uint64_t \<Rightarrow> uint64_t" where
  "tcr_value features =
     scast (push_bit 20 (1 :: c_int)) OR
     push_bit 16 (features AND 0xf) OR
     scast (push_bit 14 (0 :: c_int)) OR
     scast (push_bit 12 (3 :: c_int)) OR
     scast (push_bit 10 (1 :: c_int)) OR
     scast (push_bit 8 (1 :: c_int)) OR
     scast (push_bit 0 (25 :: c_int)) OR
     scast (0 :: c_int)"

definition sctlr_value :: uint64_t where
  "sctlr_value =
     scast (push_bit 0 (1 :: c_int) OR push_bit 1 1 OR push_bit 2 1 OR push_bit 3 1 OR
            push_bit 4 3 OR push_bit 11 1 OR push_bit 12 1 OR push_bit 16 1 OR
            push_bit 18 1 OR push_bit 19 1 OR push_bit 22 3 OR push_bit 28 3 OR 0)"

definition arch_mm_init :: "uint64_t \<Rightarrow> bool \<Rightarrow> mm_state \<Rightarrow> bool \<times> mm_state" where
  "arch_mm_init table first s =
     (let features = read_msr id_aa64mmfr0_el1 s;
          pa_bits = pa_bits_table ! unat (features AND 0xf)
      in
      if drop_bit 28 features AND 0xf \<noteq> 0 then
        (False, emit Dlog_granule_unsupported s)
      else if pa_bits = 0 then
        (False, emit (Dlog_unsupported_parange (features AND 0xf)) s)
      else
        let s = (if first then emit (Dlog_supported_pa_bits pa_bits) s else s);
            (sl0, s) =
              (if 44 \<le>s pa_bits then (2 :: c_int, s\<lparr>mm_s2_max_level := 3\<rparr>)
               else if 35 \<le>s pa_bits then (1, s\<lparr>mm_s2_max_level := 2\<rparr>)
               else (0, s\<lparr>mm_s2_max_level := 1\<rparr>));
            extend_bits = c_mod (pa_bits - PAGE_BITS) PAGE_LEVEL_BITS;
            extend_bits = (if 4 <s extend_bits then 0 else extend_bits);
            s = s\<lparr>mm_s2_root_table_count := ucast (push_bit (unat extend_bits) (1 :: c_int))\<rparr>;
            s = (if first
                 then emit (Dlog_stage2_geometry (ucast (mm_s2_max_level s) + 1)
                                                 (ucast (mm_s2_root_table_count s))) s
                 else s);
            s = write_msr vtcr_el2 (vtcr_value features sl0 pa_bits) s;
            s = write_msr mair_el2 mair_value s;
            s = write_msr ttbr0_el2 table s;
            s = write_msr tcr_el2 (tcr_value features) s;
            s = emit Dsb_sy s;
            s = emit Isb s;
            s = write_msr sctlr_el2 sctlr_value s;
            s = emit Isb s
        in (True, s))"

text \<open>
  The spec's own reading of the Stage-2 geometry, over the address width as a number:
  it is what the code's result is compared with.
\<close>

definition spec_max_level :: "int \<Rightarrow> int" where
  "spec_max_level w = (if w \<ge> 44 then 3 else if w \<ge> 35 then 2 else 1)"

definition spec_extend_bits :: "int \<Rightarrow> int" where
  "spec_extend_bits w = (let e = (w - 12) mod 9 in if e > 4 then 0 else e)"

definition spec_root_count :: "int \<Rightarrow> int" where
  "spec_root_count w = 2 ^ nat (spec_extend_bits w)"

section \<open>Cache maintenance\<close>

text \<open>
  The loop of \<open>arch_mm_write_back_dcache\<close>. \<open>line_begin += line_size\<close> wraps at
  \<open>2^64\<close>, so the loop need not end; not returning is the value \<open>None\<close>.
\<close>

partial_function (option) dcache_loop ::
  "uint16_t \<Rightarrow> uint64_t \<Rightarrow> uint64_t \<Rightarrow> mm_state \<Rightarrow> mm_state option" where
  "dcache_loop line_size end_addr line_begin s =
     (if line_begin < end_addr
      then dcache_loop line_size end_addr (line_begin + ucast line_size)
             (emit (Dc_cvac line_begin) s)
      else Some s)"

text \<open>\<open>uint16_t line_size = 1 << ((read_msr(CTR_EL0) >> 16) & 0xf)\<close>\<close>

definition dcache_line_size :: "mm_state \<Rightarrow> uint16_t" where
  "dcache_line_size s =
     ucast (push_bit (unat (drop_bit 16 (read_msr CTR_EL0 s) AND 0xf)) (1 :: c_int))"

definition arch_mm_write_back_dcache :: "uint64_t \<Rightarrow> uint64_t \<Rightarrow> mm_state \<Rightarrow> mm_state option" where
  "arch_mm_write_back_dcache base sz s =
     (let line_size = dcache_line_size s;
          line_begin = base AND scast (NOT ((ucast line_size :: c_int) - 1));
          end_addr = base + sz
      in case dcache_loop line_size end_addr line_begin s of
           None \<Rightarrow> None
         | Some s' \<Rightarrow> Some (emit Dsb_sy s'))"

section \<open>Exception trampolines\<close>

text \<open>
  The macros \<open>save_volatile_to_stack\<close>, \<open>restore_volatile_from_stack\<close> and
  \<open>current_exception_sp0\<close> are straight-line assembly. Each is the list of its
  instructions, in source order, run on a machine state: the general-purpose registers
  \<open>x0\<close> to \<open>x30\<close>, the two stack pointers with the selector \<open>spsel\<close>, the
  exception-link and saved-state registers of each exception level, the program counter
  and byte-addressed little-endian memory.
\<close>

datatype exception_level = el1 | el2

type_synonym memory = "uint64_t \<Rightarrow> 8 word"

record cpu =
  xreg :: "nat \<Rightarrow> uint64_t"
  sp_el0 :: uint64_t
  sp_elx :: uint64_t
  spsel :: bool
  elr :: "exception_level \<Rightarrow> uint64_t"
  spsr :: "exception_level \<Rightarrow> uint64_t"
  pc :: uint64_t
  mem :: memory

text \<open>The stack pointer in use: \<open>SP_ELx\<close> when \<open>spsel\<close> is set, \<open>SP_EL0\<close> otherwise.\<close>

definition sp :: "cpu \<Rightarrow> uint64_t" where
  "sp s = (if spsel s then sp_elx s else sp_el0 s)"

definition set_sp :: "uint64_t \<Rightarrow> cpu \<Rightarrow> cpu" where
  "set_sp v s = (if spsel s then s\<lparr>sp_elx := v\<rparr> else s\<lparr>sp_el0 := v\<rparr>)"

text \<open>A 64-bit store writes eight bytes, least significant first; addresses wrap.\<close>

definition store64 :: "memory \<Rightarrow> uint64_t \<Rightarrow> uint64_t \<Rightarrow> memory" where
  "store64 m a v = (\<lambda>x. if x - a < 8 then ucast (drop_bit (8 * unat (x - a)) v) else m x)"

definition load64 :: "memory \<Rightarrow> uint64_t \<Rightarrow> uint64_t" where
  "load64 m a =
     ucast (m a) OR push_bit 8 (ucast (m (a + 1))) OR push_bit 16 (ucast (m (a + 2))) OR
     push_bit 24 (ucast (m (a + 3))) OR push_bit 32 (ucast (m (a + 4))) OR
     push_bit 40 (ucast (m (a + 5))) OR push_bit 48 (ucast (m (a + 6))) OR
     push_bit 56 (ucast (m (a + 7)))"

datatype instr =
    STP_pre nat nat int   \<comment> \<open>\<open>stp xa, xb, [sp, #imm]!\<close>\<close>
  | STP_off nat nat int       \<comment> \<open>\<open>stp xa, xb, [sp, #imm]\<close>\<close>
  | STR_off nat int           \<comment> \<open>\<open>str xa, [sp, #imm]\<close>\<close>
  | LDP_off nat nat int       \<comment> \<open>\<open>ldp xa, xb, [sp, #imm]\<close>\<close>
  | LDR_off nat int           \<comment> \<open>\<open>ldr xa, [sp, #imm]\<close>\<close>
  | LDP_post nat nat int  \<comment> \<open>\<open>ldp xa, xb, [sp], #imm\<close>\<close>
  | MRS_elr nat exception_level   \<comment> \<open>\<open>mrs xa, elr_elx\<close>\<close>
  | MRS_spsr nat exception_level  \<comment> \<open>\<open>mrs xa, spsr_elx\<close>\<close>
  | MSR_elr exception_level nat   \<comment> \<open>\<open>msr elr_elx, xa\<close>\<close>
  | MSR_spsr exception_level nat  \<comment> \<open>\<open>msr spsr_elx, xa\<close>\<close>
  | MSR_spsel nat                 \<comment> \<open>\<open>msr spsel, #imm\<close>\<close>
  | BL                            \<comment> \<open>\<open>bl handler\<close>\<close>
  | ERET exception_level          \<comment> \<open>\<open>eret\<close>, taken at the level the macro is expanded for\<close>

definition next_pc :: "cpu \<Rightarrow> cpu" where
  "next_pc s = s\<lparr>pc := pc s + 4\<rparr>"

text \<open>
  One instruction. \<open>bl\<close> puts the return address in \<open>x30\<close> and runs the handler, a
  state transformer that ends by returning to \<open>x30\<close>. \<open>eret\<close> continues at the
  exception-link address and takes the stack-pointer selector from bit 0 of the saved
  state.
\<close>

fun exec_instr :: "(cpu \<Rightarrow> cpu) \<Rightarrow> instr \<Rightarrow> cpu \<Rightarrow> cpu" where
  "exec_instr h (STP_pre a b imm) s =
     (let addr = sp s + word_of_int imm;
          s = set_sp addr s
      in next_pc (s\<lparr>mem := store64 (store64 (mem s) addr (xreg s a)) (addr + 8) (xreg s b)\<rparr>))"
| "exec_instr h (STP_off a b imm) s =
     (let addr = sp s + word_of_int imm
      in next_pc (s\<lparr>mem := store64 (store64 (mem s) addr (xreg s a)) (addr + 8) (xreg s b)\<rparr>))"
| "exec_instr h (STR_off a imm) s =
     (let addr = sp s + word_of_int imm
      in next_pc (s\<lparr>mem := store64 (mem s) addr (xreg s a)\<rparr>))"
| "exec_instr h (LDP_off a b imm) s =
     (let addr = sp s + word_of_int imm
      in next_pc (s\<lparr>xreg := (xreg s)(a := load64 (mem s) addr, b := load64 (mem s) (addr + 8))\<rparr>))"
| "exec_instr h (LDR_off a imm) s =
     (let addr = sp s + word_of_int imm
      in next_pc (s\<lparr>xreg := (xreg s)(a := load64 (mem s) addr)\<rparr>))"
| "exec_instr h (LDP_post a b imm) s =
     (let addr = sp s;
          s = s\<lparr>xreg := (xreg s)(a := load64 (mem s) addr, b := load64 (mem s) (addr + 8))\<rparr>
      in next_pc (set_sp (addr + word_of_int imm) s))"
| "exec_instr h (MRS_elr a elx) s = next_pc (s\<lparr>xreg := (xreg s)(a := elr s elx)\<rparr>)"
| "exec_instr h (MRS_spsr a elx) s = next_pc (s\<lparr>xreg := (xreg s)(a := spsr s elx)\<rparr>)"
| "exec_instr h (MSR_elr elx a) s = next_pc (s\<lparr>elr := (elr s)(elx := xreg s a)\<rparr>)"
| "exec_instr h (MSR_spsr elx a) s = next_pc (s\<lparr>spsr := (spsr s)(elx := xreg s a)\<rparr>)"
| "exec_instr h (MSR_spsel imm) s = next_pc (s\<lparr>spsel := (imm \<noteq> 0)\<rparr>)"
| "exec_instr h BL s = h (s\<lparr>xreg := (xreg s)(30 := pc s + 4), pc := pc s + 4\<rparr>)"
| "exec_instr h (ERET elx) s = s\<lparr>pc := elr s elx, spsel := bit (spsr s elx) 0\<rparr>"

definition run :: "(cpu \<Rightarrow> cpu) \<Rightarrow> instr list \<Rightarrow> cpu \<Rightarrow> cpu" where
  "run h prog s = foldl (\<lambda>s i. exec_instr h i s) s prog"

text \<open>A handler that modifies nothing: it returns at once (\<open>ret\<close>).\<close>

definition noop_handler :: "cpu \<Rightarrow> cpu" where
  "noop_handler s = s\<lparr>pc := xreg s 30\<rparr>"

definition save_volatile_to_stack :: "exception_level \<Rightarrow> instr list" where
  "save_volatile_to_stack elx =
     [STP_pre 0 1 (- (8 * 24)),
      STP_off 2 3 (8 * 2),
      STP_off 4 5 (8 * 4),
      STP_off 6 7 (8 * 6),
      STP_off 8 9 (8 * 8),
      STP_off 10 11 (8 * 10),
      STP_off 12 13 (8 * 12),
      STP_off 14 15 (8 * 14),
      STP_off 16 17 (8 * 16),
      STR_off 18 (8 * 18),
      STP_off 29 30 (8 * 20),
      MRS_elr 0 elx,
      MRS_spsr 1 elx,
      STP_off 0 1 (8 * 22)]"

definition restore_volatile_from_stack :: "exception_level \<Rightarrow> instr list" where
  "restore_volatile_from_stack elx =
     [LDP_off 2 3 (8 * 2),
      LDP_off 4 5 (8 * 4),
      LDP_off 6 7 (8 * 6),
      LDP_off 8 9 (8 * 8),
      LDP_off 10 11 (8 * 10),
      LDP_off 12 13 (8 * 12),
      LDP_off 14 15 (8 * 14),
      LDP_off 16 17 (8 * 16),
      LDR_off 18 (8 * 18),
      LDP_off 29 30 (8 * 20),
      LDP_off 0 1 (8 * 22),
      MSR_elr elx 0,
      MSR_spsr elx 1,
      LDP_post 0 1 (8 * 24)]"

definition current_exception_sp0 :: "exception_level \<Rightarrow> instr list" where
  "current_exception_sp0 elx =
     [MSR_spsel 1] @
     save_volatile_to_stack elx @
     [BL] @
     restore_volatile_from_stack elx @
     [MSR_spsel 0,
      ERET elx]"

text \<open>
  The exception context the two macros move, and the frame slot (in units of eight bytes
  above the lowered stack pointer) each of its registers is kept in.
\<close>

datatype context_reg = GPR nat | ELR | SPSR

definition reg_val :: "exception_level \<Rightarrow> context_reg \<Rightarrow> cpu \<Rightarrow> uint64_t" where
  "reg_val elx r s = (case r of GPR n \<Rightarrow> xreg s n | ELR \<Rightarrow> elr s elx | SPSR \<Rightarrow> spsr s elx)"

definition frame_layout :: "(context_reg \<times> nat) list" where
  "frame_layout =
     [(GPR 0, 0), (GPR 1, 1), (GPR 2, 2), (GPR 3, 3), (GPR 4, 4), (GPR 5, 5), (GPR 6, 6),
      (GPR 7, 7), (GPR 8, 8), (GPR 9, 9), (GPR 10, 10), (GPR 11, 11), (GPR 12, 12),
      (GPR 13, 13), (GPR 14, 14), (GPR 15, 15), (GPR 16, 16), (GPR 17, 17), (GPR 18, 18),
      (GPR 29, 20), (GPR 30, 21), (ELR, 22), (SPSR, 23)]"

text \<open>
  Memory after the context of \<open>s\<close> has been written to the frame at \<open>base\<close>, slot by
  slot in the order of \<open>frame_layout\<close>, which is the order of the stores in
  \<open>save_volatile_to_stack\<close>.
\<close>

definition frame_image :: "exception_level \<Rightarrow> uint64_t \<Rightarrow> cpu \<Rightarrow> memory" where
  "frame_image elx base s =
     foldl (\<lambda>m (r, k). store64 m (base + 8 * of_nat k) (reg_val elx r s)) (mem s) frame_layout"

text \<open>A machine state for concrete runs: every register holds a different value.\<close>

definition sample_cpu :: cpu where
  "sample_cpu =
     \<lparr>xreg = (\<lambda>n. of_nat n * 0x0101010101010101), sp_el0 = 0x8000, sp_elx = 0x20,
      spsel = False, elr = (\<lambda>_. 0xAAAA), spsr = (\<lambda>_. 0x3c5), pc = 0x400, mem = (\<lambda>_. 0)\<rparr>"

section \<open>Properties of the attribute combiner\<close>

lemma bit_single: "bit (push_bit m (1::64 word)) n = (n = m \<and> m < 64)"
  by (auto simp: bit_simps)

lemma and_single_bit: "(x AND push_bit n (1::64 word) \<noteq> 0) = (n < 64 \<and> bit x n)"
  by (auto simp: bit_eq_iff[where ?'a = "64 word"] bit_simps)

lemma table_tests:
  "(t AND TABLE_NSTABLE \<noteq> 0) = bit t 63"
  "(t AND TABLE_APTABLE1 \<noteq> 0) = bit t 62"
  "(t AND TABLE_APTABLE0 \<noteq> 0) = bit t 61"
  "(t AND TABLE_XNTABLE \<noteq> 0) = bit t 60"
  "(t AND TABLE_PXNTABLE \<noteq> 0) = bit t 59"
  unfolding TABLE_NSTABLE_def TABLE_APTABLE1_def TABLE_APTABLE0_def TABLE_XNTABLE_def
    TABLE_PXNTABLE_def and_single_bit
  by simp_all

lemma stage1_leaf_bits:
  "bit STAGE1_NS n = (n = 5)"
  "bit STAGE1_AP2 n = (n = 7)"
  "bit STAGE1_AP1 n = (n = 6)"
  "bit STAGE1_XN n = (n = 54)"
  "bit STAGE1_PXN n = (n = 53)"
  unfolding STAGE1_NS_def STAGE1_AP2_def STAGE1_AP1_def STAGE1_XN_def STAGE1_PXN_def bit_single
  by simp_all

lemma combine_bit:
  "bit (arch_mm_combine_table_entry_attrs t b) n =
    (if n = 5 then bit b 5 \<or> bit t 63
     else if n = 7 then bit b 7 \<or> bit t 62
     else if n = 6 then bit b 6 \<and> \<not> bit t 61
     else if n = 54 then bit b 54 \<or> bit t 60
     else if n = 53 then bit b 53 \<or> bit t 59
     else bit b n)"
  by (auto simp: arch_mm_combine_table_entry_attrs_def Let_def table_tests[simplified] stage1_leaf_bits bit_or_iff bit_and_iff bit_not_iff dest: bit_imp_le_length)

lemma combine_path_Cons:
  "combine_path (t # path) b = combine_path path (arch_mm_combine_table_entry_attrs t b)"
  by (simp add: combine_path_def)

lemma combine_path_keeps_xn:
  "bit b 54 \<Longrightarrow> bit (combine_path path b) 54"
proof (induction path arbitrary: b)
  case Nil
  then show ?case by (simp add: combine_path_def)
next
  case (Cons t path)
  have "bit (arch_mm_combine_table_entry_attrs t b) 54"
    using Cons.prems by (simp add: combine_bit)
  then show ?case
    unfolding combine_path_Cons by (rule Cons.IH)
qed

lemma combine_path_xn:
  "\<exists>t \<in> set path. bit t 60 \<Longrightarrow> bit (combine_path path b) 54"
proof (induction path arbitrary: b)
  case Nil
  then show ?case by simp
next
  case (Cons t path)
  show ?case
  proof (cases "bit t 60")
    case True
    then have "bit (arch_mm_combine_table_entry_attrs t b) 54"
      by (simp add: combine_bit)
    then show ?thesis
      unfolding combine_path_Cons by (rule combine_path_keeps_xn)
  next
    case False
    with Cons.prems have "\<exists>t \<in> set path. bit t 60" by auto
    then show ?thesis
      unfolding combine_path_Cons by (rule Cons.IH)
  qed
qed

lemma combine_path_keeps_pxn:
  "bit b 53 \<Longrightarrow> bit (combine_path path b) 53"
proof (induction path arbitrary: b)
  case Nil
  then show ?case by (simp add: combine_path_def)
next
  case (Cons t path)
  have "bit (arch_mm_combine_table_entry_attrs t b) 53"
    using Cons.prems by (simp add: combine_bit)
  then show ?case
    unfolding combine_path_Cons by (rule Cons.IH)
qed

lemma combine_path_pxn:
  "\<exists>t \<in> set path. bit t 59 \<Longrightarrow> bit (combine_path path b) 53"
proof (induction path arbitrary: b)
  case Nil
  then show ?case by simp
next
  case (Cons t path)
  show ?case
  proof (cases "bit t 59")
    case True
    then have "bit (arch_mm_combine_table_entry_attrs t b) 53"
      by (simp add: combine_bit)
    then show ?thesis
      unfolding combine_path_Cons by (rule combine_path_keeps_pxn)
  next
    case False
    with Cons.prems have "\<exists>t \<in> set path. bit t 59" by auto
    then show ?thesis
      unfolding combine_path_Cons by (rule Cons.IH)
  qed
qed

text \<open>
  Claim C4 as stated fails for table bit 61. Write permission is the access-permission
  field's bit 7 (\<open>STAGE1_READONLY = 2\<close>, \<open>STAGE1_READWRITE = 0\<close>), and a table
  descriptor with only bit 61 set clears leaf bit 6 and nothing else: a read-write leaf
  comes back read-write.
\<close>

theorem combine_aptable0_counterexample:
  "bit (0x2000000000000000 :: uint64_t) 61 \<and>
   field 6 2 (STAGE1_AF OR STAGE1_AP STAGE1_READWRITE) = STAGE1_READWRITE \<and>
   field 6 2 (arch_mm_combine_table_entry_attrs 0x2000000000000000
                (STAGE1_AF OR STAGE1_AP STAGE1_READWRITE)) = STAGE1_READWRITE \<and>
   \<not> bit (arch_mm_combine_table_entry_attrs 0x2000000000000000
             (STAGE1_AF OR STAGE1_AP STAGE1_READWRITE)) 7"
  by (simp add: arch_mm_combine_table_entry_attrs_def Let_def field_def
      TABLE_NSTABLE_def TABLE_APTABLE1_def TABLE_APTABLE0_def TABLE_XNTABLE_def
      TABLE_PXNTABLE_def STAGE1_AF_def STAGE1_AP_def STAGE1_AP1_def STAGE1_READWRITE_def)

text \<open>
  Claim C4, amended. One combination step only restricts the leaf: table bit 63 forces
  leaf bit 5 (non-secure); table bit 62 removes the leaf's write permission (it forces
  bit 7, the read-only bit of the access-permission field); table bit 61 clears leaf
  bit 6 (AP[1]) and has no effect on bit 7; table bits 60 and 59 force the never-execute
  bits 54 and 53. A restriction already present in the leaf is never removed. Folded
  root-to-leaf over a path, one table descriptor with bit 60 set suffices for bit 54 of
  the final leaf, and one with bit 59 set for bit 53.
\<close>

theorem combine_restricts:
  fixes table_attrs block_attrs :: uint64_t and path :: "uint64_t list"
  shows
   "(bit table_attrs 63 \<longrightarrow> bit (arch_mm_combine_table_entry_attrs table_attrs block_attrs) 5) \<and>
    (bit table_attrs 62 \<longrightarrow> bit (arch_mm_combine_table_entry_attrs table_attrs block_attrs) 7) \<and>
    (bit table_attrs 61 \<longrightarrow> \<not> bit (arch_mm_combine_table_entry_attrs table_attrs block_attrs) 6) \<and>
    bit (arch_mm_combine_table_entry_attrs table_attrs block_attrs) 7 =
      (bit block_attrs 7 \<or> bit table_attrs 62) \<and>
    (bit table_attrs 60 \<longrightarrow> bit (arch_mm_combine_table_entry_attrs table_attrs block_attrs) 54) \<and>
    (bit table_attrs 59 \<longrightarrow> bit (arch_mm_combine_table_entry_attrs table_attrs block_attrs) 53) \<and>
    (bit block_attrs 5 \<longrightarrow> bit (arch_mm_combine_table_entry_attrs table_attrs block_attrs) 5) \<and>
    (bit block_attrs 7 \<longrightarrow> bit (arch_mm_combine_table_entry_attrs table_attrs block_attrs) 7) \<and>
    (bit (arch_mm_combine_table_entry_attrs table_attrs block_attrs) 6 \<longrightarrow> bit block_attrs 6) \<and>
    (bit block_attrs 54 \<longrightarrow> bit (arch_mm_combine_table_entry_attrs table_attrs block_attrs) 54) \<and>
    (bit block_attrs 53 \<longrightarrow> bit (arch_mm_combine_table_entry_attrs table_attrs block_attrs) 53) \<and>
    ((\<exists>t \<in> set path. bit t 60) \<longrightarrow> bit (combine_path path block_attrs) 54) \<and>
    ((\<exists>t \<in> set path. bit t 59) \<longrightarrow> bit (combine_path path block_attrs) 53)"
  using combine_path_xn [of path block_attrs] combine_path_pxn [of path block_attrs]
  by (simp add: combine_bit)

theorem combine_restricts_witness:
  "bit (0xF800000000000000 :: uint64_t) 63 \<and> bit (0xF800000000000000 :: uint64_t) 62 \<and>
   bit (0xF800000000000000 :: uint64_t) 61 \<and> bit (0xF800000000000000 :: uint64_t) 60 \<and>
   bit (0xF800000000000000 :: uint64_t) 59 \<and>
   bit (arch_mm_combine_table_entry_attrs 0xF800000000000000 0x40) 5 \<and>
   bit (arch_mm_combine_table_entry_attrs 0xF800000000000000 0x40) 7 \<and>
   \<not> bit (arch_mm_combine_table_entry_attrs 0xF800000000000000 0x40) 6 \<and>
   bit (arch_mm_combine_table_entry_attrs 0xF800000000000000 0x40) 54 \<and>
   bit (arch_mm_combine_table_entry_attrs 0xF800000000000000 0x40) 53 \<and>
   (\<exists>t \<in> set [0, 0x1000000000000000, 0x2000000000000000 :: uint64_t]. bit t 60) \<and>
   bit (combine_path [0, 0x1000000000000000, 0x2000000000000000] 0x40) 54 \<and>
   (\<exists>t \<in> set [0, 0x0800000000000000, 0x2000000000000000 :: uint64_t]. bit t 59) \<and>
   bit (combine_path [0, 0x0800000000000000, 0x2000000000000000] 0x40) 53"
proof -
  have b: "bit (0xF800000000000000 :: uint64_t) 63" "bit (0xF800000000000000 :: uint64_t) 62"
    "bit (0xF800000000000000 :: uint64_t) 61" "bit (0xF800000000000000 :: uint64_t) 60"
    "bit (0xF800000000000000 :: uint64_t) 59"
    by simp_all
  have p: "\<exists>t \<in> set [0, 0x1000000000000000, 0x2000000000000000 :: uint64_t]. bit t 60"
    by simp
  have q: "\<exists>t \<in> set [0, 0x0800000000000000, 0x2000000000000000 :: uint64_t]. bit t 59"
    by simp
  have x: "bit (arch_mm_combine_table_entry_attrs 0xF800000000000000 0x40) 5 \<and>
   bit (arch_mm_combine_table_entry_attrs 0xF800000000000000 0x40) 7 \<and>
   \<not> bit (arch_mm_combine_table_entry_attrs 0xF800000000000000 0x40) 6 \<and>
   bit (arch_mm_combine_table_entry_attrs 0xF800000000000000 0x40) 54 \<and>
   bit (arch_mm_combine_table_entry_attrs 0xF800000000000000 0x40) 53 \<and>
   bit (combine_path [0, 0x1000000000000000, 0x2000000000000000] 0x40) 54"
    using b p
      combine_restricts [of "0xF800000000000000" "0x40" "[0, 0x1000000000000000, 0x2000000000000000]"]
    by blast
  have y: "bit (combine_path [0, 0x0800000000000000, 0x2000000000000000] 0x40) 53"
    using q
      combine_restricts [of "0xF800000000000000" "0x40" "[0, 0x0800000000000000, 0x2000000000000000]"]
    by blast
  from b p q x y show ?thesis by (intro conjI) (elim conjE, assumption)+
qed

text \<open>
  Claim C9. When the table descriptor has none of the override bits 59 to 63 set (as for
  every Stage-2 table descriptor, where they are reserved-zero), the block attributes come
  back unchanged.
\<close>

theorem combine_no_override_bits:
  fixes table_attrs block_attrs :: uint64_t
  assumes "\<forall>n \<in> {59, 60, 61, 62, 63}. \<not> bit table_attrs n"
  shows "arch_mm_combine_table_entry_attrs table_attrs block_attrs = block_attrs"
  using assms by (intro bit_eqI) (simp add: combine_bit)

theorem combine_no_override_bits_witness:
  "\<not> bit (0x07FFFFFFFFFFFFFF :: uint64_t) 59 \<and> \<not> bit (0x07FFFFFFFFFFFFFF :: uint64_t) 60 \<and>
   \<not> bit (0x07FFFFFFFFFFFFFF :: uint64_t) 61 \<and> \<not> bit (0x07FFFFFFFFFFFFFF :: uint64_t) 62 \<and>
   \<not> bit (0x07FFFFFFFFFFFFFF :: uint64_t) 63 \<and>
   arch_mm_combine_table_entry_attrs 0x07FFFFFFFFFFFFFF 0x40 = 0x40"
proof -
  have h: "\<forall>n \<in> {59, 60, 61, 62, 63}. \<not> bit (0x07FFFFFFFFFFFFFF :: uint64_t) n" by simp
  show ?thesis using h combine_no_override_bits [OF h, of "0x40"] by simp
qed

text \<open>
  Claim C10. The combiner's result agrees with the block attributes on every bit outside
  5, 6, 7, 53 and 54; in particular on the contiguous (52), dirty-bit-modifier (51),
  not-global (11), access-flag (10), shareability (8, 9) and attribute-index (2, 3, 4) bits.
\<close>

theorem combine_frame:
  fixes table_attrs block_attrs :: uint64_t
  shows "(\<forall>n. n \<notin> {5, 6, 7, 53, 54} \<longrightarrow>
           bit (arch_mm_combine_table_entry_attrs table_attrs block_attrs) n = bit block_attrs n) \<and>
         (\<forall>n \<in> {2, 3, 4, 8, 9, 10, 11, 51, 52}.
           bit (arch_mm_combine_table_entry_attrs table_attrs block_attrs) n = bit block_attrs n)"
  by (simp add: combine_bit)

theorem combine_frame_witness:
  "(10::nat) \<notin> {5, 6, 7, 53, 54} \<and>
   bit (arch_mm_combine_table_entry_attrs 0xF800000000000000 0x400) 10 = bit (0x400 :: uint64_t) 10"
  using combine_frame [of "0xF800000000000000" "0x400"] by simp

section \<open>Properties of the attribute translator\<close>

lemmas attr_consts =
  STAGE1_AF_def STAGE1_SH_def OUTER_SHAREABLE_def STAGE1_XN_def STAGE1_AP_def
  STAGE1_READWRITE_def STAGE1_READONLY_def STAGE1_ATTRINDX_def STAGE1_DEVICEINDX_def
  STAGE1_NORMALINDX_def STAGE2_AF_def STAGE2_SH_def NON_SHAREABLE_def STAGE2_ACCESS_READ_def
  STAGE2_ACCESS_WRITE_def STAGE2_S2AP_def STAGE2_XN_def STAGE2_EXECUTE_ALL_def
  STAGE2_EXECUTE_NONE_def STAGE2_MEMATTR_DEVICE_GRE_def STAGE2_MEMATTR_NORMAL_def
  STAGE2_WRITEBACK_def

lemma mode_to_attrs_stage2_value:
  "mode AND MM_MODE_STAGE1 fl = 0 \<Longrightarrow>
   arch_mm_mode_to_attrs fl mode =
     (if mode AND MM_MODE_R fl \<noteq> 0 then 0x40 else 0) OR
     (if mode AND MM_MODE_W fl \<noteq> 0 then 0x80 else 0) OR
     (if mode AND MM_MODE_X fl \<noteq> 0 then 0 else 0x40000000000000) OR
     (if mode AND MM_MODE_D fl \<noteq> 0 then 0x40C else 0x43C)"
  by (simp add: arch_mm_mode_to_attrs_def Let_def attr_consts)

lemma mode_to_attrs_stage1_value:
  "mode AND MM_MODE_STAGE1 fl \<noteq> 0 \<Longrightarrow>
   arch_mm_mode_to_attrs fl mode =
     0x600 OR
     (if mode AND MM_MODE_X fl \<noteq> 0 then 0 else 0x40000000000000) OR
     (if mode AND MM_MODE_W fl \<noteq> 0 then 0 else 0x80) OR
     (if mode AND MM_MODE_D fl \<noteq> 0 then 0 else 4)"
  by (simp add: arch_mm_mode_to_attrs_def Let_def attr_consts)

lemma stage2_fields:
  assumes "mode AND MM_MODE_STAGE1 fl = 0"
  shows "bit (arch_mm_mode_to_attrs fl mode) 6 = (mode AND MM_MODE_R fl \<noteq> 0)"
    and "bit (arch_mm_mode_to_attrs fl mode) 7 = (mode AND MM_MODE_W fl \<noteq> 0)"
    and "(field 53 2 (arch_mm_mode_to_attrs fl mode) = 0) = (mode AND MM_MODE_X fl \<noteq> 0)"
    and "(field 53 2 (arch_mm_mode_to_attrs fl mode) = 2) = (mode AND MM_MODE_X fl = 0)"
    and "(field 2 4 (arch_mm_mode_to_attrs fl mode) = 3) = (mode AND MM_MODE_D fl \<noteq> 0)"
    and "(field 2 4 (arch_mm_mode_to_attrs fl mode) = 15) = (mode AND MM_MODE_D fl = 0)"
  unfolding mode_to_attrs_stage2_value [OF assms] field_def
  by simp_all

text \<open>
  Claim C3. For a mode without the stage-1 selector, the produced word determines the
  flags: bit 6 is the readable flag, bit 7 the writable flag, the execute-control field
  (bits 53 and 54) is 0 exactly when the executable flag is set and 2 exactly when it is
  not, and the memory-attribute field (bits 2 to 5) is 3 exactly for device memory and 15
  exactly for normal memory. So two such modes with the same word have the same four
  flags.
\<close>

theorem stage2_attrs_roundtrip:
  fixes fl :: mm_mode_flags and mode :: c_int
  assumes "mode AND MM_MODE_STAGE1 fl = 0"
  shows "(bit (arch_mm_mode_to_attrs fl mode) 6 = (mode AND MM_MODE_R fl \<noteq> 0)) \<and>
         (bit (arch_mm_mode_to_attrs fl mode) 7 = (mode AND MM_MODE_W fl \<noteq> 0)) \<and>
         ((field 53 2 (arch_mm_mode_to_attrs fl mode) = 0) = (mode AND MM_MODE_X fl \<noteq> 0)) \<and>
         ((field 53 2 (arch_mm_mode_to_attrs fl mode) = 2) = (mode AND MM_MODE_X fl = 0)) \<and>
         ((field 2 4 (arch_mm_mode_to_attrs fl mode) = 3) = (mode AND MM_MODE_D fl \<noteq> 0)) \<and>
         ((field 2 4 (arch_mm_mode_to_attrs fl mode) = 15) = (mode AND MM_MODE_D fl = 0)) \<and>
         (\<forall>mode'. mode' AND MM_MODE_STAGE1 fl = 0 \<and>
                   arch_mm_mode_to_attrs fl mode' = arch_mm_mode_to_attrs fl mode \<longrightarrow>
            (mode' AND MM_MODE_R fl \<noteq> 0) = (mode AND MM_MODE_R fl \<noteq> 0) \<and>
            (mode' AND MM_MODE_W fl \<noteq> 0) = (mode AND MM_MODE_W fl \<noteq> 0) \<and>
            (mode' AND MM_MODE_X fl \<noteq> 0) = (mode AND MM_MODE_X fl \<noteq> 0) \<and>
            (mode' AND MM_MODE_D fl \<noteq> 0) = (mode AND MM_MODE_D fl \<noteq> 0))"
proof -
  have inj: "(mode' AND MM_MODE_R fl \<noteq> 0) = (mode AND MM_MODE_R fl \<noteq> 0) \<and>
            (mode' AND MM_MODE_W fl \<noteq> 0) = (mode AND MM_MODE_W fl \<noteq> 0) \<and>
            (mode' AND MM_MODE_X fl \<noteq> 0) = (mode AND MM_MODE_X fl \<noteq> 0) \<and>
            (mode' AND MM_MODE_D fl \<noteq> 0) = (mode AND MM_MODE_D fl \<noteq> 0)"
    if s2: "mode' AND MM_MODE_STAGE1 fl = 0"
      and eq: "arch_mm_mode_to_attrs fl mode' = arch_mm_mode_to_attrs fl mode" for mode'
    using stage2_fields(1,2,3,5) [OF s2] stage2_fields(1,2,3,5) [OF assms]
    unfolding eq by simp
  with stage2_fields [OF assms] show ?thesis by blast
qed

theorem stage2_attrs_roundtrip_witness:
  "(3 :: c_int) AND MM_MODE_STAGE1 \<lparr>MM_MODE_R = 1, MM_MODE_W = 2, MM_MODE_X = 4, MM_MODE_D = 8, MM_MODE_STAGE1 = 0x20\<rparr> = 0 \<and>
   bit (arch_mm_mode_to_attrs \<lparr>MM_MODE_R = 1, MM_MODE_W = 2, MM_MODE_X = 4, MM_MODE_D = 8, MM_MODE_STAGE1 = 0x20\<rparr> 3) 6 \<and>
   bit (arch_mm_mode_to_attrs \<lparr>MM_MODE_R = 1, MM_MODE_W = 2, MM_MODE_X = 4, MM_MODE_D = 8, MM_MODE_STAGE1 = 0x20\<rparr> 3) 7 \<and>
   field 53 2 (arch_mm_mode_to_attrs \<lparr>MM_MODE_R = 1, MM_MODE_W = 2, MM_MODE_X = 4, MM_MODE_D = 8, MM_MODE_STAGE1 = 0x20\<rparr> 3) = 2 \<and>
   field 2 4 (arch_mm_mode_to_attrs \<lparr>MM_MODE_R = 1, MM_MODE_W = 2, MM_MODE_X = 4, MM_MODE_D = 8, MM_MODE_STAGE1 = 0x20\<rparr> 3) = 15"
  using stage2_attrs_roundtrip [of 3 "\<lparr>MM_MODE_R = 1, MM_MODE_W = 2, MM_MODE_X = 4, MM_MODE_D = 8, MM_MODE_STAGE1 = 0x20\<rparr>"]
  by simp

text \<open>
  Claim C7. For a mode with the stage-1 selector, the produced word has the access flag
  (bit 10) set and the shareability field (bits 8 and 9) outer-shareable; bit 54
  (never-execute) is set exactly when the executable flag is absent; the access-permission
  field (bits 6 and 7) is the read-only encoding without the writable flag and the
  read-write encoding with it; the attribute-index field (bits 2 and 3) is the device
  index with the device flag and the normal index otherwise.
\<close>

theorem stage1_attrs:
  fixes fl :: mm_mode_flags and mode :: c_int
  assumes "mode AND MM_MODE_STAGE1 fl \<noteq> 0"
  shows "bit (arch_mm_mode_to_attrs fl mode) 10 \<and>
         field 8 2 (arch_mm_mode_to_attrs fl mode) = OUTER_SHAREABLE \<and>
         (bit (arch_mm_mode_to_attrs fl mode) 54 = (mode AND MM_MODE_X fl = 0)) \<and>
         field 6 2 (arch_mm_mode_to_attrs fl mode) =
           (if mode AND MM_MODE_W fl = 0 then STAGE1_READONLY else STAGE1_READWRITE) \<and>
         field 2 2 (arch_mm_mode_to_attrs fl mode) =
           (if mode AND MM_MODE_D fl \<noteq> 0 then STAGE1_DEVICEINDX else STAGE1_NORMALINDX)"
  unfolding mode_to_attrs_stage1_value [OF assms] field_def
  by (simp add: attr_consts)

theorem stage1_attrs_witness:
  "(0x22 :: c_int) AND MM_MODE_STAGE1 \<lparr>MM_MODE_R = 1, MM_MODE_W = 2, MM_MODE_X = 4, MM_MODE_D = 8, MM_MODE_STAGE1 = 0x20\<rparr> \<noteq> 0 \<and>
   bit (arch_mm_mode_to_attrs \<lparr>MM_MODE_R = 1, MM_MODE_W = 2, MM_MODE_X = 4, MM_MODE_D = 8, MM_MODE_STAGE1 = 0x20\<rparr> 0x22) 10 \<and>
   field 8 2 (arch_mm_mode_to_attrs \<lparr>MM_MODE_R = 1, MM_MODE_W = 2, MM_MODE_X = 4, MM_MODE_D = 8, MM_MODE_STAGE1 = 0x20\<rparr> 0x22) = 2 \<and>
   bit (arch_mm_mode_to_attrs \<lparr>MM_MODE_R = 1, MM_MODE_W = 2, MM_MODE_X = 4, MM_MODE_D = 8, MM_MODE_STAGE1 = 0x20\<rparr> 0x22) 54 \<and>
   field 6 2 (arch_mm_mode_to_attrs \<lparr>MM_MODE_R = 1, MM_MODE_W = 2, MM_MODE_X = 4, MM_MODE_D = 8, MM_MODE_STAGE1 = 0x20\<rparr> 0x22) = 0 \<and>
   field 2 2 (arch_mm_mode_to_attrs \<lparr>MM_MODE_R = 1, MM_MODE_W = 2, MM_MODE_X = 4, MM_MODE_D = 8, MM_MODE_STAGE1 = 0x20\<rparr> 0x22) = 1"
  using stage1_attrs [of "0x22" "\<lparr>MM_MODE_R = 1, MM_MODE_W = 2, MM_MODE_X = 4, MM_MODE_D = 8, MM_MODE_STAGE1 = 0x20\<rparr>"]
  by (simp add: OUTER_SHAREABLE_def STAGE1_READWRITE_def STAGE1_NORMALINDX_def)

section \<open>Properties of bring-up and of the level oracle\<close>

lemma parange_cases:
  fixes features :: uint64_t
  obtains k where "k < 16" "unat (features AND 0xf) = k"
proof -
  have "features AND 0xf \<le> 0xf" by (rule word_and_le1)
  then have "unat (features AND 0xf) \<le> 15" by (simp add: word_le_nat_alt)
  then show ?thesis using that by simp
qed

lemma nat_less_16_cases:
  "k < 16 \<Longrightarrow> k \<in> {0, 1, 2, 3, 4, 5, 6, 7, 8, 9, 10, 11, 12, 13, 14, 15::nat}"
  by simp arith

lemma pa_bits_table_zero:
  "k < 16 \<Longrightarrow> (pa_bits_table ! k = 0) = (5 < k)"
  by (drule nat_less_16_cases) (auto simp: pa_bits_table_def)

lemma pa_bits_table_supported:
  "pa_bits_table ! 0 = 32" "pa_bits_table ! 1 = 36" "pa_bits_table ! 2 = 40"
  "pa_bits_table ! 3 = 42" "pa_bits_table ! 4 = 44" "pa_bits_table ! 5 = 48"
  "pa_bits_table ! Suc 0 = 36"
  by (simp_all add: pa_bits_table_def)

lemma extend_bits_values:
  "c_mod (32 - PAGE_BITS) PAGE_LEVEL_BITS = 2"
  "c_mod (36 - PAGE_BITS) PAGE_LEVEL_BITS = 6"
  "c_mod (40 - PAGE_BITS) PAGE_LEVEL_BITS = 1"
  "c_mod (42 - PAGE_BITS) PAGE_LEVEL_BITS = 3"
  "c_mod (44 - PAGE_BITS) PAGE_LEVEL_BITS = 5"
  "c_mod (48 - PAGE_BITS) PAGE_LEVEL_BITS = 0"
  by (simp_all add: c_mod_def PAGE_BITS_def PAGE_LEVEL_BITS_def signed_modulo_int_def)

lemma spec_geometry_values:
  "spec_max_level 32 = 1" "spec_max_level 36 = 2" "spec_max_level 40 = 2"
  "spec_max_level 42 = 2" "spec_max_level 44 = 3" "spec_max_level 48 = 3"
  "spec_root_count 32 = 4" "spec_root_count 36 = 1" "spec_root_count 40 = 2"
  "spec_root_count 42 = 8" "spec_root_count 44 = 1" "spec_root_count 48 = 1"
  by (simp_all add: spec_max_level_def spec_root_count_def spec_extend_bits_def Let_def)

lemma init_success_geometry:
  assumes g: "drop_bit 28 (msr s id_aa64mmfr0_el1) AND 0xf = 0"
    and k: "unat (msr s id_aa64mmfr0_el1 AND 0xf) = k"
    and w: "pa_bits_table ! k = w" "w \<noteq> 0"
  shows "fst (arch_mm_init table first s) = True"
    and "mm_s2_max_level (snd (arch_mm_init table first s)) =
           (if 44 \<le>s w then 3 else if 35 \<le>s w then 2 else 1)"
    and "mm_s2_root_table_count (snd (arch_mm_init table first s)) =
           ucast (push_bit (unat (if 4 <s c_mod (w - PAGE_BITS) PAGE_LEVEL_BITS then 0
                                  else c_mod (w - PAGE_BITS) PAGE_LEVEL_BITS)) (1 :: c_int))"
  using g k w
  by (simp_all add: arch_mm_init_def read_msr_def write_msr_def emit_def Let_def split_def)


lemma init_result_iff:
  "fst (arch_mm_init table first s) =
     (drop_bit 28 (msr s id_aa64mmfr0_el1) AND 0xf = 0 \<and>
      pa_bits_table ! unat (msr s id_aa64mmfr0_el1 AND 0xf) \<noteq> 0)"
  by (simp add: arch_mm_init_def read_msr_def Let_def split_def)

lemma init_failure_state:
  "\<not> fst (arch_mm_init table first s) \<Longrightarrow>
   snd (arch_mm_init table first s) =
     s\<lparr>trace := trace s @
          [if drop_bit 28 (msr s id_aa64mmfr0_el1) AND 0xf \<noteq> 0 then Dlog_granule_unsupported
           else Dlog_unsupported_parange (msr s id_aa64mmfr0_el1 AND 0xf)]\<rparr>"
  by (simp add: arch_mm_init_def read_msr_def emit_def Let_def split_def split: if_splits)

lemma init_geometry_spec:
  assumes g: "drop_bit 28 (msr s id_aa64mmfr0_el1) AND 0xf = 0"
    and k: "unat (msr s id_aa64mmfr0_el1 AND 0xf) < 6"
  shows "sint (pa_bits_table ! unat (msr s id_aa64mmfr0_el1 AND 0xf)) \<in> {32, 36, 40, 42, 44, 48}"
    and "uint (mm_s2_max_level (snd (arch_mm_init table first s))) =
           spec_max_level (sint (pa_bits_table ! unat (msr s id_aa64mmfr0_el1 AND 0xf)))"
    and "uint (mm_s2_root_table_count (snd (arch_mm_init table first s))) =
           spec_root_count (sint (pa_bits_table ! unat (msr s id_aa64mmfr0_el1 AND 0xf)))"
proof -
  from k consider
      "unat (msr s id_aa64mmfr0_el1 AND 0xf) = 0" | "unat (msr s id_aa64mmfr0_el1 AND 0xf) = 1"
    | "unat (msr s id_aa64mmfr0_el1 AND 0xf) = 2" | "unat (msr s id_aa64mmfr0_el1 AND 0xf) = 3"
    | "unat (msr s id_aa64mmfr0_el1 AND 0xf) = 4" | "unat (msr s id_aa64mmfr0_el1 AND 0xf) = 5"
    by arith
  then have
    "sint (pa_bits_table ! unat (msr s id_aa64mmfr0_el1 AND 0xf)) \<in> {32, 36, 40, 42, 44, 48} \<and>
     uint (mm_s2_max_level (snd (arch_mm_init table first s))) =
           spec_max_level (sint (pa_bits_table ! unat (msr s id_aa64mmfr0_el1 AND 0xf))) \<and>
     uint (mm_s2_root_table_count (snd (arch_mm_init table first s))) =
           spec_root_count (sint (pa_bits_table ! unat (msr s id_aa64mmfr0_el1 AND 0xf)))"
  proof cases
    case 1
    show ?thesis
      using init_success_geometry(2,3) [OF g 1 pa_bits_table_supported(1), of table first]
      by (simp add: 1 pa_bits_table_supported extend_bits_values spec_geometry_values
          word_sle_eq word_sless_alt)
  next
    case 2
    show ?thesis
      using init_success_geometry(2,3) [OF g 2 pa_bits_table_supported(2), of table first]
      by (simp add: 2 pa_bits_table_supported extend_bits_values spec_geometry_values
          word_sle_eq word_sless_alt)
  next
    case 3
    show ?thesis
      using init_success_geometry(2,3) [OF g 3 pa_bits_table_supported(3), of table first]
      by (simp add: 3 pa_bits_table_supported extend_bits_values spec_geometry_values
          word_sle_eq word_sless_alt)
  next
    case 4
    show ?thesis
      using init_success_geometry(2,3) [OF g 4 pa_bits_table_supported(4), of table first]
      by (simp add: 4 pa_bits_table_supported extend_bits_values spec_geometry_values
          word_sle_eq word_sless_alt)
  next
    case 5
    show ?thesis
      using init_success_geometry(2,3) [OF g 5 pa_bits_table_supported(5), of table first]
      by (simp add: 5 pa_bits_table_supported extend_bits_values spec_geometry_values
          word_sle_eq word_sless_alt)
  next
    case 6
    show ?thesis
      using init_success_geometry(2,3) [OF g 6 pa_bits_table_supported(6), of table first]
      by (simp add: 6 pa_bits_table_supported extend_bits_values spec_geometry_values
          word_sle_eq word_sless_alt)
  qed
  then show "sint (pa_bits_table ! unat (msr s id_aa64mmfr0_el1 AND 0xf)) \<in> {32, 36, 40, 42, 44, 48}"
    and "uint (mm_s2_max_level (snd (arch_mm_init table first s))) =
           spec_max_level (sint (pa_bits_table ! unat (msr s id_aa64mmfr0_el1 AND 0xf)))"
    and "uint (mm_s2_root_table_count (snd (arch_mm_init table first s))) =
           spec_root_count (sint (pa_bits_table ! unat (msr s id_aa64mmfr0_el1 AND 0xf)))"
    by simp_all
qed

lemma pa_bits_table_widths:
  "map sint (take 6 pa_bits_table) = [32, 36, 40, 42, 44, 48]"
  by (simp add: pa_bits_table_def)


text \<open>
  Claim C1. When the granule check passes and the address-range field selects one of the
  six populated table entries, the width \<open>w\<close> is one of 32, 36, 40, 42, 44, 48, bring-up
  succeeds, and the two globals hold the geometry the spec computes from \<open>w\<close>: maximum
  level 3 from 44 bits, 2 from 35 bits, else 1; root-table count \<open>2 ^ extend_bits\<close> with
  \<open>extend_bits = (w - 12) mod 9\<close>, reset to 0 above 4. In particular 44 bits give level 3
  and one root table, 48 bits one root table, 40 bits level 2 and two root tables.
\<close>

theorem init_stage2_geometry:
  fixes table :: uint64_t and first :: bool and s :: mm_state
  defines "features \<equiv> msr s id_aa64mmfr0_el1"
  defines "w \<equiv> sint (pa_bits_table ! unat (features AND 0xf))"
  defines "s' \<equiv> snd (arch_mm_init table first s)"
  assumes "drop_bit 28 features AND 0xf = 0" and "unat (features AND 0xf) < 6"
  shows "w \<in> {32, 36, 40, 42, 44, 48} \<and>
         fst (arch_mm_init table first s) \<and>
         uint (mm_s2_max_level s') = spec_max_level w \<and>
         uint (mm_s2_root_table_count s') = spec_root_count w \<and>
         (w = 44 \<longrightarrow> uint (mm_s2_max_level s') = 3 \<and> uint (mm_s2_root_table_count s') = 1) \<and>
         (w = 48 \<longrightarrow> uint (mm_s2_root_table_count s') = 1) \<and>
         (w = 40 \<longrightarrow> uint (mm_s2_max_level s') = 2 \<and> uint (mm_s2_root_table_count s') = 2) \<and>
         map sint (take 6 pa_bits_table) = [32, 36, 40, 42, 44, 48]"
proof -
  have k: "unat (msr s id_aa64mmfr0_el1 AND 0xf) < 16"
    using assms(5) by (simp add: features_def)
  have ok: "fst (arch_mm_init table first s)"
    using assms(4,5) pa_bits_table_zero [OF k]
    by (simp add: init_result_iff features_def)
  have geo: "w \<in> {32, 36, 40, 42, 44, 48}"
    "uint (mm_s2_max_level s') = spec_max_level w"
    "uint (mm_s2_root_table_count s') = spec_root_count w"
    using init_geometry_spec(1) [where s = s]
      init_geometry_spec(2,3) [where s = s and table = table and first = first] assms(4,5)
    by (simp_all add: features_def w_def s'_def)
  show ?thesis
    using ok geo pa_bits_table_widths
    by (auto simp: spec_geometry_values)
qed

theorem init_stage2_geometry_witness:
  "drop_bit 28 (msr (boot_state (\<lambda>_. 4)) id_aa64mmfr0_el1) AND 0xf = 0 \<and>
   unat (msr (boot_state (\<lambda>_. 4)) id_aa64mmfr0_el1 AND 0xf) < 6 \<and>
   sint (pa_bits_table ! unat (msr (boot_state (\<lambda>_. 4)) id_aa64mmfr0_el1 AND 0xf)) = 44 \<and>
   fst (arch_mm_init 0 True (boot_state (\<lambda>_. 4))) \<and>
   uint (mm_s2_max_level (snd (arch_mm_init 0 True (boot_state (\<lambda>_. 4))))) = 3 \<and>
   uint (mm_s2_root_table_count (snd (arch_mm_init 0 True (boot_state (\<lambda>_. 4))))) = 1"
  using init_stage2_geometry [where s = "boot_state (\<lambda>_. 4)" and table = 0 and first = True]
  by (simp add: boot_state_def pa_bits_table_supported)

text \<open>
  Claim C2. Bring-up fails exactly when the granule field (bits 28 to 31 of the feature
  register) is non-zero or the address-range field (bits 0 to 3) selects a zero table
  entry, which are the indices above 5. A failing call leaves both globals and every
  system register as they were and adds a single diagnostic to the trace, no register
  write.
\<close>

theorem init_failure:
  fixes table :: uint64_t and first :: bool and s :: mm_state
  defines "features \<equiv> msr s id_aa64mmfr0_el1"
  defines "r \<equiv> arch_mm_init table first s"
  shows "(\<not> fst r) = (drop_bit 28 features AND 0xf \<noteq> 0 \<or>
                       pa_bits_table ! unat (features AND 0xf) = 0) \<and>
         (pa_bits_table ! unat (features AND 0xf) = 0) = (5 < unat (features AND 0xf)) \<and>
         (\<not> fst r \<longrightarrow>
            mm_s2_max_level (snd r) = mm_s2_max_level s \<and>
            mm_s2_root_table_count (snd r) = mm_s2_root_table_count s \<and>
            msr (snd r) = msr s \<and>
            trace (snd r) = trace s @
              [if drop_bit 28 features AND 0xf \<noteq> 0 then Dlog_granule_unsupported
               else Dlog_unsupported_parange (features AND 0xf)] \<and>
            (\<forall>reg v. Write_msr reg v \<notin> set (drop (length (trace s)) (trace (snd r)))))"
proof -
  obtain k where k: "k < 16" "unat (msr s id_aa64mmfr0_el1 AND 0xf) = k"
    by (rule parange_cases)
  have a: "(\<not> fst r) = (drop_bit 28 features AND 0xf \<noteq> 0 \<or>
                       pa_bits_table ! unat (features AND 0xf) = 0)"
    by (simp add: r_def features_def init_result_iff)
  have b: "(pa_bits_table ! unat (features AND 0xf) = 0) = (5 < unat (features AND 0xf))"
    using pa_bits_table_zero [OF k(1)] by (simp add: features_def k(2))
  have c: "mm_s2_max_level (snd r) = mm_s2_max_level s \<and>
            mm_s2_root_table_count (snd r) = mm_s2_root_table_count s \<and>
            msr (snd r) = msr s \<and>
            trace (snd r) = trace s @
              [if drop_bit 28 features AND 0xf \<noteq> 0 then Dlog_granule_unsupported
               else Dlog_unsupported_parange (features AND 0xf)] \<and>
            (\<forall>reg v. Write_msr reg v \<notin> set (drop (length (trace s)) (trace (snd r))))"
    if "\<not> fst r"
    using init_failure_state [of table first s] that
    by (simp add: r_def features_def)
  from a b c show ?thesis by blast
qed

theorem init_failure_witness:
  "\<not> fst (arch_mm_init 0 True (boot_state (\<lambda>_. 0x10000000))) \<and>
   mm_s2_max_level (snd (arch_mm_init 0 True (boot_state (\<lambda>_. 0x10000000)))) = 0 \<and>
   mm_s2_root_table_count (snd (arch_mm_init 0 True (boot_state (\<lambda>_. 0x10000000)))) = 0 \<and>
   trace (snd (arch_mm_init 0 True (boot_state (\<lambda>_. 0x10000000)))) = [Dlog_granule_unsupported] \<and>
   \<not> fst (arch_mm_init 0 True (boot_state (\<lambda>_. 6))) \<and>
   trace (snd (arch_mm_init 0 True (boot_state (\<lambda>_. 6)))) = [Dlog_unsupported_parange 6]"
  using init_failure [where table = 0 and first = True and s = "boot_state (\<lambda>_. 0x10000000)"]
    init_failure [where table = 0 and first = True and s = "boot_state (\<lambda>_. 6)"]
  by (simp add: boot_state_def pa_bits_table_def)

text \<open>
  Claim C8. With the stage-1 selector the oracle answers 2 levels and 1 root table in any
  state; without it, it answers the two globals: what a successful bring-up derived, or
  the zero defaults when bring-up has not run.
\<close>

theorem level_oracle:
  fixes fl :: mm_mode_flags and mode :: c_int and s :: mm_state and table :: uint64_t
    and first :: bool and regs :: "sysreg \<Rightarrow> uint64_t"
  defines "w \<equiv> sint (pa_bits_table ! unat (msr s id_aa64mmfr0_el1 AND 0xf))"
  defines "s' \<equiv> snd (arch_mm_init table first s)"
  shows "(mode AND MM_MODE_STAGE1 fl \<noteq> 0 \<longrightarrow>
            arch_mm_max_level fl mode s = 2 \<and> arch_mm_root_table_count fl mode s = 1) \<and>
         (mode AND MM_MODE_STAGE1 fl = 0 \<longrightarrow>
            arch_mm_max_level fl mode s = mm_s2_max_level s \<and>
            arch_mm_root_table_count fl mode s = mm_s2_root_table_count s) \<and>
         (mode AND MM_MODE_STAGE1 fl = 0 \<and> fst (arch_mm_init table first s) \<longrightarrow>
            uint (arch_mm_max_level fl mode s') = spec_max_level w \<and>
            uint (arch_mm_root_table_count fl mode s') = spec_root_count w) \<and>
         (mode AND MM_MODE_STAGE1 fl = 0 \<longrightarrow>
            arch_mm_max_level fl mode (boot_state regs) = 0 \<and>
            arch_mm_root_table_count fl mode (boot_state regs) = 0)"
proof -
  have probe: "uint (mm_s2_max_level s') = spec_max_level w \<and>
               uint (mm_s2_root_table_count s') = spec_root_count w"
    if ok: "fst (arch_mm_init table first s)"
  proof -
    obtain k where k: "k < 16" "unat (msr s id_aa64mmfr0_el1 AND 0xf) = k"
      by (rule parange_cases)
    from ok have g: "drop_bit 28 (msr s id_aa64mmfr0_el1) AND 0xf = 0"
      and nz: "pa_bits_table ! unat (msr s id_aa64mmfr0_el1 AND 0xf) \<noteq> 0"
      by (simp_all add: init_result_iff)
    from nz pa_bits_table_zero [OF k(1)] have "unat (msr s id_aa64mmfr0_el1 AND 0xf) < 6"
      by (simp add: k(2))
    from init_geometry_spec(2,3) [OF g this, of table first] show ?thesis
      by (simp add: w_def s'_def)
  qed
  then show ?thesis
    by (simp add: arch_mm_max_level_def arch_mm_root_table_count_def boot_state_def)
qed

theorem level_oracle_witness:
  "arch_mm_max_level \<lparr>MM_MODE_R = 1, MM_MODE_W = 2, MM_MODE_X = 4, MM_MODE_D = 8,
      MM_MODE_STAGE1 = 0x20\<rparr> 0x23 (boot_state (\<lambda>_. 4)) = 2 \<and>
   arch_mm_root_table_count \<lparr>MM_MODE_R = 1, MM_MODE_W = 2, MM_MODE_X = 4, MM_MODE_D = 8,
      MM_MODE_STAGE1 = 0x20\<rparr> 0x23 (boot_state (\<lambda>_. 4)) = 1 \<and>
   arch_mm_max_level \<lparr>MM_MODE_R = 1, MM_MODE_W = 2, MM_MODE_X = 4, MM_MODE_D = 8,
      MM_MODE_STAGE1 = 0x20\<rparr> 3 (boot_state (\<lambda>_. 4)) = 0 \<and>
   arch_mm_root_table_count \<lparr>MM_MODE_R = 1, MM_MODE_W = 2, MM_MODE_X = 4, MM_MODE_D = 8,
      MM_MODE_STAGE1 = 0x20\<rparr> 3 (boot_state (\<lambda>_. 4)) = 0 \<and>
   fst (arch_mm_init 0 True (boot_state (\<lambda>_. 4))) \<and>
   uint (arch_mm_max_level \<lparr>MM_MODE_R = 1, MM_MODE_W = 2, MM_MODE_X = 4, MM_MODE_D = 8,
      MM_MODE_STAGE1 = 0x20\<rparr> 3 (snd (arch_mm_init 0 True (boot_state (\<lambda>_. 4))))) = 3 \<and>
   uint (arch_mm_root_table_count \<lparr>MM_MODE_R = 1, MM_MODE_W = 2, MM_MODE_X = 4, MM_MODE_D = 8,
      MM_MODE_STAGE1 = 0x20\<rparr> 3 (snd (arch_mm_init 0 True (boot_state (\<lambda>_. 4))))) = 1"
proof -
  have ok: "fst (arch_mm_init 0 True (boot_state (\<lambda>_. 4)))"
    by (simp add: init_result_iff boot_state_def pa_bits_table_supported)
  show ?thesis
    using ok
      level_oracle [where mode = "0x23" and s = "boot_state (\<lambda>_. 4)" and table = 0
        and first = True and regs = "\<lambda>_. 4"
        and fl = "\<lparr>MM_MODE_R = 1, MM_MODE_W = 2, MM_MODE_X = 4, MM_MODE_D = 8,
                  MM_MODE_STAGE1 = 0x20\<rparr>"]
      level_oracle [where mode = 3 and s = "boot_state (\<lambda>_. 4)" and table = 0
        and first = True and regs = "\<lambda>_. 4"
        and fl = "\<lparr>MM_MODE_R = 1, MM_MODE_W = 2, MM_MODE_X = 4, MM_MODE_D = 8,
                  MM_MODE_STAGE1 = 0x20\<rparr>"]
    by (simp add: boot_state_def pa_bits_table_supported spec_geometry_values)
qed


section \<open>Properties of cache maintenance\<close>

lemma line_mask:
  assumes "n \<le> 15"
  shows "(scast (NOT (ucast (ucast (push_bit n (1 :: 32 word)) :: 16 word) - 1 :: 32 word)) :: 64 word)
          = NOT (mask n)"
proof -
  have a: "(ucast (ucast (push_bit n (1 :: 32 word)) :: 16 word) :: 32 word) = push_bit n 1"
    using assms by (intro bit_word_eqI) (auto simp: bit_simps)
  have b: "push_bit n (1 :: 32 word) - 1 = mask n"
    by (simp add: mask_eq_exp_minus_1 push_bit_eq_mult)
  show ?thesis
    unfolding a b using assms
    by (intro bit_word_eqI) (auto simp: bit_simps)
qed

lemma aligned_iff:
  fixes base :: "64 word"
  shows "(base AND NOT (mask n) = base) = (take_bit n base = 0)"
  by (auto simp: bit_eq_iff[where ?'a = "64 word"] bit_simps)

lemma take_bit_zero_iff_mod:
  fixes base :: "64 word"
  shows "(take_bit n base = 0) = (unat base mod 2 ^ n = 0)"
  by (metis take_bit_nat_def unat_eq_0 unsigned_take_bit_eq)

lemma line_size_unat:
  "unat (dcache_line_size s) = 2 ^ unat (drop_bit 16 (msr s CTR_EL0) AND 0xf)"
proof -
  have "drop_bit 16 (msr s CTR_EL0) AND 0xf \<le> 0xf" by (rule word_and_le1)
  then have n: "unat (drop_bit 16 (msr s CTR_EL0) AND 0xf) \<le> 15" by (simp add: word_le_nat_alt)
  have "unat (ucast (push_bit n (1 :: 32 word)) :: 16 word) = 2 ^ n" if "n \<le> 15" for n
  proof -
    have "(ucast (push_bit n (1 :: 32 word)) :: 16 word) = push_bit n 1"
      using that by (intro bit_word_eqI) (auto simp: bit_simps)
    moreover have lt: "(2 :: nat) ^ n < 2 ^ 16"
      using that by (intro power_strict_increasing) simp_all
    have "unat (word_of_nat (2 ^ n) :: 16 word) = 2 ^ n mod 2 ^ LENGTH(16)"
      by (rule unat_of_nat)
    with lt have "unat (push_bit n (1 :: 16 word)) = 2 ^ n"
      by (simp add: push_bit_eq_mult)
    ultimately show ?thesis by simp
  qed
  from this [OF n] show ?thesis by (simp add: dcache_line_size_def read_msr_def)
qed

lemma line_aligned_iff:
  fixes base :: uint64_t
  shows "(base AND scast (NOT (ucast (dcache_line_size s) - 1 :: c_int)) = base) =
         (unat base mod unat (dcache_line_size s) = 0)"
proof -
  have "drop_bit 16 (msr s CTR_EL0) AND 0xf \<le> 0xf" by (rule word_and_le1)
  then have n: "unat (drop_bit 16 (msr s CTR_EL0) AND 0xf) \<le> 15" by (simp add: word_le_nat_alt)
  show ?thesis
    unfolding line_size_unat take_bit_zero_iff_mod [symmetric] aligned_iff [symmetric]
    unfolding dcache_line_size_def read_msr_def line_mask [OF n] ..
qed

text \<open>
  Claim C6 as stated fails: the start is rounded down to a line boundary, so a zero-length
  range at an address inside a line still cleans that line. With 16-byte lines and base
  \<open>0x1234\<close> the line at \<open>0x1230\<close> is cleaned before the barrier.
\<close>

theorem write_back_dcache_zero_length_counterexample:
  "arch_mm_write_back_dcache 0x1234 0 (boot_state (\<lambda>_. 0x40000)) =
     Some \<lparr>mm_s2_max_level = 0, mm_s2_root_table_count = 0, msr = \<lambda>_. 0x40000,
            trace = [Dc_cvac 0x1230, Dsb_sy]\<rparr>"
  by (simp add: arch_mm_write_back_dcache_def dcache_line_size_def dcache_loop.simps
      read_msr_def emit_def boot_state_def Let_def)

text \<open>
  Claim C6, amended. For every base address that is a multiple of the cache-line size, a
  zero-length range performs no clean operation and still issues the completion barrier.
\<close>

theorem write_back_dcache_zero_length_aligned:
  fixes base :: uint64_t and s :: mm_state
  assumes "unat base mod unat (dcache_line_size s) = 0"
  shows "arch_mm_write_back_dcache base 0 s = Some (s\<lparr>trace := trace s @ [Dsb_sy]\<rparr>)"
proof -
  have "base AND scast (NOT (ucast (dcache_line_size s) - 1 :: c_int)) = base"
    using assms by (simp only: line_aligned_iff)
  then show ?thesis
    unfolding arch_mm_write_back_dcache_def Let_def
    by (subst dcache_loop.simps) (simp add: emit_def)
qed

theorem write_back_dcache_zero_length_aligned_witness:
  "unat (0x1230 :: uint64_t) mod unat (dcache_line_size (boot_state (\<lambda>_. 0x40000))) = 0 \<and>
   arch_mm_write_back_dcache 0x1230 0 (boot_state (\<lambda>_. 0x40000)) =
     Some \<lparr>mm_s2_max_level = 0, mm_s2_root_table_count = 0, msr = \<lambda>_. 0x40000,
            trace = [Dsb_sy]\<rparr>"
proof -
  have h: "unat (0x1230 :: uint64_t) mod unat (dcache_line_size (boot_state (\<lambda>_. 0x40000))) = 0"
    by (simp add: line_size_unat boot_state_def)
  show ?thesis
    using h write_back_dcache_zero_length_aligned [OF h]
    by (simp add: boot_state_def)
qed

section \<open>Properties of the exception trampoline\<close>

lemma byte_term:
  "push_bit k (ucast (ucast (drop_bit k v) :: 8 word) :: 64 word) = v AND push_bit k (mask 8)"
  by (rule bit_word_eqI)
     (auto simp: bit_push_bit_iff bit_ucast_iff bit_drop_bit_eq bit_and_iff bit_mask_iff
       dest: bit_imp_le_length)

lemma all_bytes:
  "push_bit 0 (mask 8) OR push_bit 8 (mask 8) OR push_bit 16 (mask 8) OR
   push_bit 24 (mask 8) OR push_bit 32 (mask 8) OR push_bit 40 (mask 8) OR
   push_bit 48 (mask 8) OR push_bit 56 (mask 8) = (- 1 :: 64 word)"
  by (simp add: mask_eq_exp_minus_1)

lemma store64_bytes:
  "store64 m a v a = ucast v"
  "store64 m a v (a + 1) = ucast (drop_bit 8 v)"
  "store64 m a v (a + 2) = ucast (drop_bit 16 v)"
  "store64 m a v (a + 3) = ucast (drop_bit 24 v)"
  "store64 m a v (a + 4) = ucast (drop_bit 32 v)"
  "store64 m a v (a + 5) = ucast (drop_bit 40 v)"
  "store64 m a v (a + 6) = ucast (drop_bit 48 v)"
  "store64 m a v (a + 7) = ucast (drop_bit 56 v)"
  by (simp_all add: store64_def)

lemma load64_store64_same: "load64 (store64 m a v) a = v"
proof -
  have "load64 (store64 m a v) a =
        v AND push_bit 0 (mask 8) OR v AND push_bit 8 (mask 8) OR v AND push_bit 16 (mask 8) OR
        v AND push_bit 24 (mask 8) OR v AND push_bit 32 (mask 8) OR v AND push_bit 40 (mask 8) OR
        v AND push_bit 48 (mask 8) OR v AND push_bit 56 (mask 8)"
    unfolding load64_def store64_bytes byte_term [symmetric] by simp
  also have "\<dots> = v AND (push_bit 0 (mask 8) OR push_bit 8 (mask 8) OR push_bit 16 (mask 8) OR
        push_bit 24 (mask 8) OR push_bit 32 (mask 8) OR push_bit 40 (mask 8) OR
        push_bit 48 (mask 8) OR push_bit 56 (mask 8))"
    by (simp only: bit.conj_disj_distrib)
  also have "\<dots> = v" unfolding all_bytes by simp
  finally show ?thesis .
qed

lemma store64_other_byte:
  "8 \<le> x - a \<Longrightarrow> store64 m a v x = m x"
  by (simp add: store64_def not_less [symmetric])

lemma far_bytes:
  fixes d :: uint64_t
  assumes "8 \<le> d" "d \<le> - 8"
  shows "8 \<le> d + 1" "8 \<le> d + 2" "8 \<le> d + 3" "8 \<le> d + 4" "8 \<le> d + 5" "8 \<le> d + 6" "8 \<le> d + 7"
  using assms by (simp_all add: word_le_nat_alt unat_word_ariths) 


lemma load64_store64_other:
  assumes "8 \<le> b - a" "b - a \<le> 0xFFFFFFFFFFFFFFF8"
  shows "load64 (store64 m a v) b = load64 m b"
proof -
  have e: "(0xFFFFFFFFFFFFFFF8 :: 64 word) = - 8" by simp
  have le: "b - a \<le> - 8" using assms(2) unfolding e .
  have "8 \<le> b + 1 - a" "8 \<le> b + 2 - a" "8 \<le> b + 3 - a" "8 \<le> b + 4 - a"
    "8 \<le> b + 5 - a" "8 \<le> b + 6 - a" "8 \<le> b + 7 - a"
    using far_bytes [OF assms(1) le] by (simp_all only: add_diff_eq [symmetric] add.commute [of b] add.commute [of _ "b - a"])
  then show ?thesis
    unfolding load64_def using assms(1) by (simp add: store64_other_byte)
qed


lemmas exec_simps = run_def Let_def sp_def set_sp_def next_pc_def

lemma save_state:
  assumes "sp s = B + 192"
  shows "run h (save_volatile_to_stack elx) s =
     set_sp B (s\<lparr>xreg := (xreg s)(0 := elr s elx, 1 := spsr s elx),
                 pc := pc s + 56,
                 mem := frame_image elx B s\<rparr>)"
  using assms
  by (cases "spsel s")
     (simp_all add: exec_simps save_volatile_to_stack_def frame_image_def frame_layout_def
       reg_val_def ac_simps)

lemma restore_state:
  assumes "sp s = B"
  shows "run h (restore_volatile_from_stack elx) s =
     set_sp (B + 192)
       (s\<lparr>xreg := (xreg s)
               (2 := load64 (mem s) (B + 16), 3 := load64 (mem s) (B + 24),
                4 := load64 (mem s) (B + 32), 5 := load64 (mem s) (B + 40),
                6 := load64 (mem s) (B + 48), 7 := load64 (mem s) (B + 56),
                8 := load64 (mem s) (B + 64), 9 := load64 (mem s) (B + 72),
                10 := load64 (mem s) (B + 80), 11 := load64 (mem s) (B + 88),
                12 := load64 (mem s) (B + 96), 13 := load64 (mem s) (B + 104),
                14 := load64 (mem s) (B + 112), 15 := load64 (mem s) (B + 120),
                16 := load64 (mem s) (B + 128), 17 := load64 (mem s) (B + 136),
                18 := load64 (mem s) (B + 144),
                29 := load64 (mem s) (B + 160), 30 := load64 (mem s) (B + 168),
                0 := load64 (mem s) B, 1 := load64 (mem s) (B + 8)),
           elr := (elr s)(elx := load64 (mem s) (B + 176)),
           spsr := (spsr s)(elx := load64 (mem s) (B + 184)),
           pc := pc s + 56\<rparr>)"
  using assms
  by (cases "spsel s")
     (simp_all add: exec_simps restore_volatile_from_stack_def ac_simps fun_upd_twist)

lemma outside_slot:
  fixes x B c :: uint64_t
  assumes "192 \<le> x - B" "c \<le> 184"
  shows "8 \<le> x - (B + c)"
proof -
  have "(184 :: uint64_t) \<le> 192" by simp
  with assms have c: "c \<le> x - B" by (meson order_trans)
  have e: "x - (B + c) = (x - B) - c" by simp
  have "unat ((x - B) - c) = unat (x - B) - unat c"
    using c by (rule unat_sub)
  moreover have "192 \<le> unat (x - B)" "unat c \<le> 184"
    using assms by (simp_all add: word_le_nat_alt)
  ultimately have "8 \<le> unat ((x - B) - c)" by arith
  then show ?thesis unfolding e by (simp add: word_le_nat_alt)
qed

lemma frame_outside:
  assumes "192 \<le> x - B"
  shows "frame_image elx B s x = mem s x"
proof -
  have "(8 :: uint64_t) \<le> 192" by simp
  with assms have "8 \<le> x - B" by (meson order_trans)
  with assms show ?thesis
    unfolding frame_layout_def frame_image_def
    by (simp add: store64_other_byte outside_slot)
qed

lemma run_append: "run h (p @ q) s = run h q (run h p s)"
  by (simp add: run_def)

lemma run_Cons: "run h (i # p) s = run h p (exec_instr h i s)"
  by (simp add: run_def)

lemma run_Nil: "run h [] s = s"
  by (simp add: run_def)

lemma frame_slots:
  "load64 (frame_image elx B s) B = xreg s 0"
  "load64 (frame_image elx B s) (B + 8) = xreg s 1"
  "load64 (frame_image elx B s) (B + 16) = xreg s 2"
  "load64 (frame_image elx B s) (B + 24) = xreg s 3"
  "load64 (frame_image elx B s) (B + 32) = xreg s 4"
  "load64 (frame_image elx B s) (B + 40) = xreg s 5"
  "load64 (frame_image elx B s) (B + 48) = xreg s 6"
  "load64 (frame_image elx B s) (B + 56) = xreg s 7"
  "load64 (frame_image elx B s) (B + 64) = xreg s 8"
  "load64 (frame_image elx B s) (B + 72) = xreg s 9"
  "load64 (frame_image elx B s) (B + 80) = xreg s 10"
  "load64 (frame_image elx B s) (B + 88) = xreg s 11"
  "load64 (frame_image elx B s) (B + 96) = xreg s 12"
  "load64 (frame_image elx B s) (B + 104) = xreg s 13"
  "load64 (frame_image elx B s) (B + 112) = xreg s 14"
  "load64 (frame_image elx B s) (B + 120) = xreg s 15"
  "load64 (frame_image elx B s) (B + 128) = xreg s 16"
  "load64 (frame_image elx B s) (B + 136) = xreg s 17"
  "load64 (frame_image elx B s) (B + 144) = xreg s 18"
  "load64 (frame_image elx B s) (B + 160) = xreg s 29"
  "load64 (frame_image elx B s) (B + 168) = xreg s 30"
  "load64 (frame_image elx B s) (B + 176) = elr s elx"
  "load64 (frame_image elx B s) (B + 184) = spsr s elx"
  unfolding frame_layout_def frame_image_def
  by (simp_all add: reg_val_def load64_store64_same load64_store64_other)

lemma frame_read:
  "(r, k) \<in> set frame_layout \<Longrightarrow>
   load64 (frame_image elx B s) (B + 8 * of_nat k) = reg_val elx r s"
  using frame_slots [of elx B s]
  by (auto simp: frame_layout_def reg_val_def)

lemma trampoline_state:
  "run noop_handler (current_exception_sp0 elx) s =
     s\<lparr>spsel := bit (spsr s elx) 0, pc := elr s elx,
       mem := frame_image elx (sp_elx s - 192) (s\<lparr>spsel := True, pc := pc s + 4\<rparr>)\<rparr>"
proof -
  define B where "B = sp_elx s - 192"
  define s1 where "s1 = exec_instr noop_handler (MSR_spsel 1) s"
  define s2 where "s2 = run noop_handler (save_volatile_to_stack elx) s1"
  define s3 where "s3 = exec_instr noop_handler BL s2"
  define s4 where "s4 = run noop_handler (restore_volatile_from_stack elx) s3"
  have s1: "s1 = s\<lparr>spsel := True, pc := pc s + 4\<rparr>"
    by (simp add: s1_def next_pc_def)
  have sp1: "sp s1 = B + 192" by (simp add: s1 sp_def B_def)
  have s2: "s2 = s1\<lparr>sp_elx := B, xreg := (xreg s)(0 := elr s elx, 1 := spsr s elx),
                     pc := pc s + 60, mem := frame_image elx B s1\<rparr>"
    unfolding s2_def save_state [OF sp1] by (simp add: s1 set_sp_def)
  have s3: "s3 = s2\<lparr>xreg := (xreg s)(0 := elr s elx, 1 := spsr s elx, 30 := pc s + 64),
                     pc := pc s + 64\<rparr>"
    by (simp add: s3_def s2 noop_handler_def ac_simps)
  have sp3: "sp s3 = B" by (simp add: s3 s2 s1 sp_def)
  have x: "xreg s4 n = xreg s n" for n
    unfolding s4_def restore_state [OF sp3]
    by (simp add: set_sp_def s3 s2 frame_slots s1)
  have s4: "s4 = s\<lparr>spsel := True, pc := pc s + 120, mem := frame_image elx B s1\<rparr>"
  proof -
    have "xreg s4 = xreg s" using x by (rule ext)
    moreover have "elr s4 = elr s" "spsr s4 = spsr s"
      "sp_el0 s4 = sp_el0 s" "spsel s4 = True" "pc s4 = pc s + 120"
      "mem s4 = frame_image elx B s1" "cpu.more s4 = cpu.more s"
      unfolding s4_def restore_state [OF sp3]
      by (simp_all add: set_sp_def s3 s2 frame_slots s1)
    moreover have "sp_elx s4 = B + 192"
      unfolding s4_def restore_state [OF sp3]
      by (simp add: set_sp_def s3 s2 s1)
    then have "sp_elx s4 = sp_elx s" by (simp add: B_def)
    ultimately show ?thesis by (intro cpu.equality) simp_all
  qed
  have "run noop_handler (current_exception_sp0 elx) s =
        run noop_handler [MSR_spsel 0, ERET elx] s4"
    by (simp add: current_exception_sp0_def run_append run_Cons run_Nil
        s1_def s2_def s3_def s4_def)
  also have "\<dots> = s\<lparr>spsel := bit (spsr s elx) 0, pc := elr s elx,
                      mem := frame_image elx B s1\<rparr>"
    by (simp add: run_Cons run_Nil s4 next_pc_def)
  finally show ?thesis by (simp add: B_def s1)
qed


lemma sp_set_sp: "sp (set_sp v s) = v"
  by (simp add: sp_def set_sp_def)

lemma save_sp: "sp (run h (save_volatile_to_stack elx) s) = sp s - 192"
proof -
  have "sp s = (sp s - 192) + 192" by simp
  then show ?thesis by (simp only: save_state sp_set_sp)
qed

lemma save_mem:
  "mem (run h (save_volatile_to_stack elx) s) = frame_image elx (sp s - 192) s"
proof -
  have "sp s = (sp s - 192) + 192" by simp
  then have "run h (save_volatile_to_stack elx) s =
     set_sp (sp s - 192) (s\<lparr>xreg := (xreg s)(0 := elr s elx, 1 := spsr s elx),
                 pc := pc s + 56,
                 mem := frame_image elx (sp s - 192) s\<rparr>)"
    by (rule save_state)
  then show ?thesis by (simp add: set_sp_def)
qed

lemma restore_sp: "sp (run h (restore_volatile_from_stack elx) s) = sp s + 192"
  by (simp only: restore_state [OF refl] sp_set_sp)

lemma restore_mem: "mem (run h (restore_volatile_from_stack elx) s) = mem s"
  by (simp add: restore_state [OF refl] set_sp_def)

lemma restore_reads:
  "(r, k) \<in> set frame_layout \<Longrightarrow>
   reg_val elx r (run h (restore_volatile_from_stack elx) s) =
     load64 (mem s) (sp s + 8 * of_nat k)"
  unfolding restore_state [OF refl]
  by (auto simp: frame_layout_def reg_val_def set_sp_def)

lemma restore_others:
  "GPR n \<notin> fst ` set frame_layout \<Longrightarrow>
   xreg (run h (restore_volatile_from_stack elx) s) n = xreg s n"
  unfolding restore_state [OF refl]
  by (simp add: frame_layout_def set_sp_def)

lemma frame_layout_regs:
  "fst ` set frame_layout =
     {GPR 0, GPR 1, GPR 2, GPR 3, GPR 4, GPR 5, GPR 6, GPR 7, GPR 8, GPR 9, GPR 10, GPR 11,
      GPR 12, GPR 13, GPR 14, GPR 15, GPR 16, GPR 17, GPR 18, GPR 29, GPR 30, ELR, SPSR}"
  by (simp add: frame_layout_def)

lemma slot19_untouched_by:
  fixes x B c :: uint64_t
  assumes d: "x - (B + 152) < 8" and c: "c \<le> 144 \<or> (160 \<le> c \<and> c \<le> 184)"
  shows "8 \<le> x - (B + c)"
proof -
  define d where "d = x - (B + 152)"
  have e: "x - (B + c) = d + 152 - c" by (simp add: d_def)
  have ud: "unat d < 8" using assms(1) by (simp add: d_def word_less_nat_alt)
  have u: "unat (d + 152) = unat d + 152"
    using ud by (simp add: unat_word_ariths)
  from c show ?thesis
  proof
    assume "c \<le> 144"
    then have uc: "unat c \<le> 144" by (simp add: word_le_nat_alt)
    have "unat (d + 152 - c) = unat (d + 152) - unat c"
      using uc u by (simp add: unat_sub_if')
    with u uc show ?thesis unfolding e by (simp add: word_le_nat_alt)
  next
    assume "160 \<le> c \<and> c \<le> 184"
    then have uc: "160 \<le> unat c" "unat c \<le> 184" by (simp_all add: word_le_nat_alt)
    have "unat (d + 152 - c) = unat (d + 152) + 2 ^ 64 - unat c"
      using uc u ud by (simp add: unat_sub_if')
    with u uc show ?thesis unfolding e by (simp add: word_le_nat_alt)
  qed
qed

lemma frame_slot19:
  assumes "x - (B + 152) < 8"
  shows "frame_image elx B s x = mem s x"
proof -
  note f = slot19_untouched_by [OF assms]
  have "8 \<le> x - (B + 0)" by (rule f) simp
  then have "8 \<le> x - B" by simp
  moreover have "8 \<le> x - (B + 8)" "8 \<le> x - (B + 16)" "8 \<le> x - (B + 24)"
    "8 \<le> x - (B + 32)" "8 \<le> x - (B + 40)" "8 \<le> x - (B + 48)" "8 \<le> x - (B + 56)"
    "8 \<le> x - (B + 64)" "8 \<le> x - (B + 72)" "8 \<le> x - (B + 80)" "8 \<le> x - (B + 88)"
    "8 \<le> x - (B + 96)" "8 \<le> x - (B + 104)" "8 \<le> x - (B + 112)" "8 \<le> x - (B + 120)"
    "8 \<le> x - (B + 128)" "8 \<le> x - (B + 136)" "8 \<le> x - (B + 144)"
    "8 \<le> x - (B + 160)" "8 \<le> x - (B + 168)" "8 \<le> x - (B + 176)" "8 \<le> x - (B + 184)"
    by (rule f, simp)+
  ultimately show ?thesis
    unfolding frame_layout_def frame_image_def
    by (simp add: store64_other_byte)
qed

lemma restore_other_levels:
  "e \<noteq> elx \<Longrightarrow>
   elr (run h (restore_volatile_from_stack elx) s) e = elr s e \<and>
   spsr (run h (restore_volatile_from_stack elx) s) e = spsr s e"
  unfolding restore_state [OF refl]
  by (simp add: set_sp_def)

text \<open>
  Claim C5. The save macro stores each register of \<open>frame_layout\<close> in its slot of the
  frame it reserves and stores nothing else: memory after it is memory before it with
  exactly those 23 slots written, so slot 19 of the frame and everything outside the
  24-slot frame are as before. The restore macro reloads each register of the layout from
  the same slot, and changes no other general-purpose register, no exception-link or
  saved-state register of another level, and no memory. The registers of the layout are
  \<open>x0\<close> to \<open>x18\<close>, \<open>x29\<close>, \<open>x30\<close>, the exception-link register and the saved-state
  register. Save lowers the stack pointer by 24 slots and restore raises it by 24 slots.
  A full \<open>current_exception_sp0\<close> trampoline around a handler that modifies nothing leaves
  every general-purpose register, the exception-link and saved-state registers and both
  stack pointers as they were, and continues at the exception-link address.
\<close>

theorem trampoline_round_trip:
  fixes elx :: exception_level and s :: cpu and h :: "cpu \<Rightarrow> cpu"
  shows
    "(\<forall>(r, k) \<in> set frame_layout.
        load64 (mem (run h (save_volatile_to_stack elx) s))
               (sp (run h (save_volatile_to_stack elx) s) + 8 * of_nat k) = reg_val elx r s) \<and>
     (\<forall>(r, k) \<in> set frame_layout.
        reg_val elx r (run h (restore_volatile_from_stack elx) s) =
          load64 (mem s) (sp s + 8 * of_nat k)) \<and>
     fst ` set frame_layout =
       {GPR 0, GPR 1, GPR 2, GPR 3, GPR 4, GPR 5, GPR 6, GPR 7, GPR 8, GPR 9, GPR 10, GPR 11,
        GPR 12, GPR 13, GPR 14, GPR 15, GPR 16, GPR 17, GPR 18, GPR 29, GPR 30, ELR, SPSR} \<and>
     mem (run h (save_volatile_to_stack elx) s) = frame_image elx (sp s - 8 * 24) s \<and>
     (\<forall>x. x - (sp (run h (save_volatile_to_stack elx) s) + 8 * 19) < 8 \<longrightarrow>
        mem (run h (save_volatile_to_stack elx) s) x = mem s x) \<and>
     (\<forall>x. 192 \<le> x - sp (run h (save_volatile_to_stack elx) s) \<longrightarrow>
        mem (run h (save_volatile_to_stack elx) s) x = mem s x) \<and>
     (\<forall>n. GPR n \<notin> fst ` set frame_layout \<longrightarrow>
        xreg (run h (restore_volatile_from_stack elx) s) n = xreg s n) \<and>
     (\<forall>e. e \<noteq> elx \<longrightarrow>
        elr (run h (restore_volatile_from_stack elx) s) e = elr s e \<and>
        spsr (run h (restore_volatile_from_stack elx) s) e = spsr s e) \<and>
     mem (run h (restore_volatile_from_stack elx) s) = mem s \<and>
     sp (run h (save_volatile_to_stack elx) s) = sp s - 8 * 24 \<and>
     sp (run h (restore_volatile_from_stack elx) s) = sp s + 8 * 24 \<and>
     xreg (run noop_handler (current_exception_sp0 elx) s) = xreg s \<and>
     elr (run noop_handler (current_exception_sp0 elx) s) = elr s \<and>
     spsr (run noop_handler (current_exception_sp0 elx) s) = spsr s \<and>
     sp_el0 (run noop_handler (current_exception_sp0 elx) s) = sp_el0 s \<and>
     sp_elx (run noop_handler (current_exception_sp0 elx) s) = sp_elx s \<and>
     pc (run noop_handler (current_exception_sp0 elx) s) = elr s elx"
proof -
  have a: "\<forall>(r, k) \<in> set frame_layout.
        load64 (mem (run h (save_volatile_to_stack elx) s))
               (sp (run h (save_volatile_to_stack elx) s) + 8 * of_nat k) = reg_val elx r s"
    unfolding save_sp save_mem by (auto intro: frame_read)
  have b: "\<forall>(r, k) \<in> set frame_layout.
        reg_val elx r (run h (restore_volatile_from_stack elx) s) =
          load64 (mem s) (sp s + 8 * of_nat k)"
    by (auto intro: restore_reads)
  have m: "mem (run h (save_volatile_to_stack elx) s) = frame_image elx (sp s - 8 * 24) s"
    by (simp add: save_mem)
  have n: "\<forall>x. x - (sp (run h (save_volatile_to_stack elx) s) + 8 * 19) < 8 \<longrightarrow>
        mem (run h (save_volatile_to_stack elx) s) x = mem s x"
    unfolding save_sp save_mem by (auto intro: frame_slot19)
  have c: "\<forall>x. 192 \<le> x - sp (run h (save_volatile_to_stack elx) s) \<longrightarrow>
        mem (run h (save_volatile_to_stack elx) s) x = mem s x"
    unfolding save_sp save_mem by (auto intro: frame_outside)
  have d: "\<forall>n. GPR n \<notin> fst ` set frame_layout \<longrightarrow>
        xreg (run h (restore_volatile_from_stack elx) s) n = xreg s n"
    by (auto intro: restore_others)
  have l: "\<forall>e. e \<noteq> elx \<longrightarrow>
        elr (run h (restore_volatile_from_stack elx) s) e = elr s e \<and>
        spsr (run h (restore_volatile_from_stack elx) s) e = spsr s e"
    using restore_other_levels [of _ elx h s] by blast
  have e: "sp (run h (save_volatile_to_stack elx) s) = sp s - 8 * 24"
    "sp (run h (restore_volatile_from_stack elx) s) = sp s + 8 * 24"
    by (simp_all add: save_sp restore_sp)
  have f: "xreg (run noop_handler (current_exception_sp0 elx) s) = xreg s"
    "elr (run noop_handler (current_exception_sp0 elx) s) = elr s"
    "spsr (run noop_handler (current_exception_sp0 elx) s) = spsr s"
    "sp_el0 (run noop_handler (current_exception_sp0 elx) s) = sp_el0 s"
    "sp_elx (run noop_handler (current_exception_sp0 elx) s) = sp_elx s"
    "pc (run noop_handler (current_exception_sp0 elx) s) = elr s elx"
    by (simp_all add: trampoline_state)
  from a b m n c d l e f frame_layout_regs restore_mem [of h elx s] show ?thesis
    by (intro conjI)
qed

theorem trampoline_round_trip_witness:
  "load64 (mem (run noop_handler (save_volatile_to_stack el2) sample_cpu))
          (sp (run noop_handler (save_volatile_to_stack el2) sample_cpu) + 8 * 22) = 0xAAAA \<and>
   xreg (run noop_handler (restore_volatile_from_stack el2) sample_cpu) 19 = 0x1313131313131313 \<and>
   mem (run noop_handler (save_volatile_to_stack el2) sample_cpu) 0x8000 = 0 \<and>
   mem (run noop_handler (save_volatile_to_stack el2) sample_cpu) 0x7FD8 = 0 \<and>
   elr (run noop_handler (restore_volatile_from_stack el2) sample_cpu) el1 = 0xAAAA \<and>
   xreg (run noop_handler (current_exception_sp0 el2) sample_cpu) 30 = 0x1E1E1E1E1E1E1E1E \<and>
   sp_elx (run noop_handler (current_exception_sp0 el2) sample_cpu) = 0x20 \<and>
   pc (run noop_handler (current_exception_sp0 el2) sample_cpu) = 0xAAAA"
proof -
  have m: "(ELR, 22) \<in> set frame_layout" "GPR 19 \<notin> fst ` set frame_layout"
    by (simp_all add: frame_layout_def)
  have o: "192 \<le> (0x8000 :: uint64_t) - (sp sample_cpu - 8 * 24)"
    "(0x7FD8 :: uint64_t) - (sp sample_cpu - 8 * 24 + 8 * 19) < 8"
    by (simp_all add: sample_cpu_def sp_def)
  have l: "el1 \<noteq> el2" by simp
  show ?thesis
    using m o l trampoline_round_trip [of noop_handler el2 sample_cpu]
    by (auto simp: sample_cpu_def reg_val_def sp_def)
qed

end
